theory Spec2Isabelle
  imports Main "HOL-Library.Word"
begin

unbundle bit_operations_syntax

section \<open>Signals of the serdes (kusphy.py)\<close>

text \<open>
  A Migen \<open>Signal(n)\<close> is an \<open>n\<close>-bit unsigned value, modelled as an \<open>n word\<close>; a
  one-bit \<open>Signal()\<close> is a \<open>bool\<close>. A combinatorial signal that no statement of the
  taken branch assigns holds its reset value, which is 0 for every signal of the
  two modules.

  The serdes works on four 8b/10b lanes (\<open>Encoder(4, True)\<close> and four
  \<open>Decoder(True)\<close>). One lane of the decoded side is the pair \<open>k\<close>, \<open>d\<close>; the four
  lanes \<open>[0]\<close> .. \<open>[3]\<close> are the four fields of \<open>lanes\<close>.
\<close>

record lane =
  lane_k :: bool
  lane_d :: "8 word"

datatype 'a lanes = Lanes (l0: 'a) (l1: 'a) (l2: 'a) (l3: 'a)

text \<open>What a lane of the encoder input holds when nothing assigns it.\<close>

definition lane_reset :: lane where
  "lane_reset = \<lparr>lane_k = False, lane_d = 0\<rparr>"

subsection \<open>Transmit datapath\<close>

text \<open>
  The comma multiplexer in front of the encoder: with \<open>tx_comma\<close> only
  \<open>encoder.k[0]\<close> and \<open>encoder.d[0]\<close> are assigned, otherwise the four lanes are the
  four bits of \<open>tx_k\<close> and the four bytes \<open>tx_d[0:8]\<close> .. \<open>tx_d[24:32]\<close>.
\<close>

definition encoder_inputs :: "bool \<Rightarrow> 4 word \<Rightarrow> 32 word \<Rightarrow> lane lanes" where
  "encoder_inputs comma k d =
     (if comma then
        Lanes \<lparr>lane_k = True, lane_d = 0xbc\<rparr> lane_reset lane_reset lane_reset
      else
        Lanes \<lparr>lane_k = bit k 0, lane_d = ucast d\<rparr>
              \<lparr>lane_k = bit k 1, lane_d = ucast (drop_bit 8 d)\<rparr>
              \<lparr>lane_k = bit k 2, lane_d = ucast (drop_bit 16 d)\<rparr>
              \<lparr>lane_k = bit k 3, lane_d = ucast (drop_bit 24 d)\<rparr>)"

text \<open>\<open>Cat(*[self.encoder.output[i] for i in range(4)])\<close>: lane 0 in the low bits.\<close>

definition cat_outputs :: "10 word lanes \<Rightarrow> 40 word" where
  "cat_outputs out =
     ucast (l0 out) OR push_bit 10 (ucast (l1 out)) OR
     push_bit 20 (ucast (l2 out)) OR push_bit 30 (ucast (l3 out))"

text \<open>
  The synchronous assignment to \<open>tx_gearbox.i\<close>: the value the register holds in
  the next cycle of \<open>sys0p2x\<close>.
\<close>

definition tx_gearbox_i_next :: "bool \<Rightarrow> 10 word lanes \<Rightarrow> 40 word" where
  "tx_gearbox_i_next idle out = (if idle then 0 else cat_outputs out)"

subsection \<open>Receive datapath\<close>

text \<open>\<open>decoders[i].input.eq(rx_bitslip.o[10*i:10*i+10])\<close>.\<close>

definition decoder_inputs :: "40 word \<Rightarrow> 10 word lanes" where
  "decoder_inputs bitslip_o =
     Lanes (ucast bitslip_o) (ucast (drop_bit 10 bitslip_o))
           (ucast (drop_bit 20 bitslip_o)) (ucast (drop_bit 30 bitslip_o))"

text \<open>\<open>rx_k\<close> and \<open>rx_d\<close>: the decoders' \<open>k\<close> and \<open>d\<close> concatenated, lane 0 lowest.\<close>

definition rx_k_of :: "lane lanes \<Rightarrow> 4 word" where
  "rx_k_of dec =
     of_bool (lane_k (l0 dec)) OR push_bit 1 (of_bool (lane_k (l1 dec))) OR
     push_bit 2 (of_bool (lane_k (l2 dec))) OR push_bit 3 (of_bool (lane_k (l3 dec)))"

definition rx_d_of :: "lane lanes \<Rightarrow> 32 word" where
  "rx_d_of dec =
     ucast (lane_d (l0 dec)) OR push_bit 8 (ucast (lane_d (l1 dec))) OR
     push_bit 16 (ucast (lane_d (l2 dec))) OR push_bit 24 (ucast (lane_d (l3 dec)))"

definition rx_idle_of :: "40 word \<Rightarrow> bool" where
  "rx_idle_of bitslip_o = (bitslip_o = 0)"

definition rx_comma_of :: "lane lanes \<Rightarrow> bool" where
  "rx_comma_of dec =
     (((lane_d (l0 dec) = 0xbc) \<and> (lane_k (l0 dec) = True)) \<and>
      ((lane_d (l1 dec) = 0x00) \<and> (lane_k (l1 dec) = False)) \<and>
      ((lane_d (l2 dec) = 0x00) \<and> (lane_k (l2 dec) = False)) \<and>
      ((lane_d (l3 dec) = 0x00) \<and> (lane_k (l3 dec) = False)))"

text \<open>The comma word: K28.5 on lane 0, the data symbol 0x00 on lanes 1 to 3.\<close>

definition comma_lanes :: "lane lanes" where
  "comma_lanes =
     Lanes \<lparr>lane_k = True, lane_d = 0xbc\<rparr> \<lparr>lane_k = False, lane_d = 0\<rparr>
           \<lparr>lane_k = False, lane_d = 0\<rparr> \<lparr>lane_k = False, lane_d = 0\<rparr>"

subsection \<open>Cycles of the two datapaths\<close>

text \<open>
  The 8b/10b encoder and decoders (litex) and \<open>BitSlip\<close> (migen) are library
  modules with registers of their own. The serdes only wires them, so each is a
  parameter here: a machine that, from its state and the inputs of a cycle, gives
  its next state and the outputs the serdes reads.
\<close>

type_synonym ('s, 'i, 'o) machine = "'s \<Rightarrow> 'i \<Rightarrow> 's \<times> 'o"

fun run :: "('s, 'i, 'o) machine \<Rightarrow> 's \<Rightarrow> 'i list \<Rightarrow> 'o list" where
  "run m s [] = []"
| "run m s (x # xs) = (case m s x of (s', y) \<Rightarrow> y # run m s' xs)"

text \<open>
  The inputs and outputs of the datapaths in the \<open>sys0p2x\<close> domain. The control and
  status signals (\<open>tx_idle\<close>, \<open>tx_comma\<close>, \<open>rx_idle\<close>, \<open>rx_comma\<close>,
  \<open>rx_bitslip_value\<close>) are the inner ones, on the \<open>sys0p2x\<close> side of their
  \<open>MultiReg\<close> synchronisers.
\<close>

record tx_in =
  tx_k :: "4 word"
  tx_d :: "32 word"
  tx_comma :: bool
  tx_idle :: bool

record rx_in =
  rx_gearbox_o :: "40 word"
  rx_bitslip_value :: "6 word"

record rx_out =
  rx_k :: "4 word"
  rx_d :: "32 word"
  rx_idle :: bool
  rx_comma :: bool

text \<open>One cycle of the transmit side: the value loaded into \<open>tx_gearbox.i\<close>.\<close>

definition tx_cycle ::
  "('e, lane lanes, 10 word lanes) machine \<Rightarrow> ('e, tx_in, 40 word) machine" where
  "tx_cycle encoder es i =
     (case encoder es (encoder_inputs (tx_comma i) (tx_k i) (tx_d i)) of
        (es', out) \<Rightarrow> (es', tx_gearbox_i_next (tx_idle i) out))"

text \<open>
  \<open>rx_bitslip.value.eq(rx_bitslip_value)\<close> and \<open>rx_bitslip.i.eq(rx_gearbox.o)\<close>:
  the pair handed to \<open>BitSlip(40)\<close>.
\<close>

definition rx_bitslip_inputs :: "rx_in \<Rightarrow> 6 word \<times> 40 word" where
  "rx_bitslip_inputs i = (rx_bitslip_value i, rx_gearbox_o i)"

text \<open>The four decoders, each with its own state, each on its own lane.\<close>

definition decode_lanes ::
  "('d, 10 word, lane) machine \<Rightarrow> 'd lanes \<Rightarrow> 10 word lanes \<Rightarrow> 'd lanes \<times> lane lanes" where
  "decode_lanes decoder ds ins =
     (let r0 = decoder (l0 ds) (l0 ins); r1 = decoder (l1 ds) (l1 ins);
          r2 = decoder (l2 ds) (l2 ins); r3 = decoder (l3 ds) (l3 ins)
      in (Lanes (fst r0) (fst r1) (fst r2) (fst r3),
          Lanes (snd r0) (snd r1) (snd r2) (snd r3)))"

definition rx_outputs :: "40 word \<Rightarrow> lane lanes \<Rightarrow> rx_out" where
  "rx_outputs bitslip_o dec =
     \<lparr>rx_k = rx_k_of dec, rx_d = rx_d_of dec,
      rx_idle = rx_idle_of bitslip_o, rx_comma = rx_comma_of dec\<rparr>"

definition rx_cycle ::
  "('b, 6 word \<times> 40 word, 40 word) machine \<Rightarrow> ('d, 10 word, lane) machine \<Rightarrow>
   ('b \<times> 'd lanes, rx_in, rx_out) machine" where
  "rx_cycle bitslip decoder s i =
     (case bitslip (fst s) (rx_bitslip_inputs i) of
        (bs', bitslip_o) \<Rightarrow>
          (case decode_lanes decoder (snd s) (decoder_inputs bitslip_o) of
             (ds', dec) \<Rightarrow> ((bs', ds'), rx_outputs bitslip_o dec)))"

subsection \<open>What \<open>KUSSerdes(pads, mode)\<close> builds\<close>

text \<open>
  An \<open>Instance\<close> or \<open>MultiReg\<close> is its name and the nets on its ports (the \<open>p_\<close>
  parameters of the primitives are left out). \<open>mode\<close> is a Python string.
\<close>

type_synonym special = "string \<times> (string \<times> string) list"

definition multiregs :: "special list" where
  "multiregs =
     [(''MultiReg'', [(''i'', ''self.tx_idle''), (''o'', ''tx_idle''), (''odomain'', ''sys0p2x'')]),
      (''MultiReg'', [(''i'', ''self.tx_comma''), (''o'', ''tx_comma''), (''odomain'', ''sys0p2x'')]),
      (''MultiReg'', [(''i'', ''rx_idle''), (''o'', ''self.rx_idle''), (''odomain'', ''sys'')]),
      (''MultiReg'', [(''i'', ''rx_comma''), (''o'', ''self.rx_comma''), (''odomain'', ''sys'')]),
      (''MultiReg'', [(''i'', ''self.rx_bitslip_value''), (''o'', ''rx_bitslip_value''),
                      (''odomain'', ''sys0p2x'')]),
      (''MultiReg'', [(''i'', ''self.rx_delay_inc''), (''o'', ''rx_delay_inc''), (''odomain'', ''sys'')]),
      (''MultiReg'', [(''i'', ''self.rx_delay_en_vtc''), (''o'', ''rx_delay_en_vtc''),
                      (''odomain'', ''sys'')])]"

text \<open>
  The word fed to \<open>tx_clk_gearbox\<close>:
  \<open>(0b1111100000 << 30) | (0b1111100000 << 20) | (0b1111100000 << 10) | (0b1111100000 << 0)\<close>,
  where \<open>0b1111100000 = 0x3E0\<close>.
\<close>

definition tx_clk_word :: "40 word" where
  "tx_clk_word = push_bit 30 0x3E0 OR push_bit 20 0x3E0 OR push_bit 10 0x3E0 OR push_bit 0 0x3E0"

definition tx_clock_specials :: "string \<Rightarrow> special list" where
  "tx_clock_specials mode =
     (if mode = ''master'' then
        [(''OSERDESE3'', [(''o_OQ'', ''clk_o''), (''i_RST'', ''ResetSignal(sys)''),
                          (''i_CLK'', ''ClockSignal(sys4x)''), (''i_CLKDIV'', ''ClockSignal(sys)''),
                          (''i_D'', ''self.tx_clk_gearbox.o'')]),
         (''OBUFDS'', [(''i_I'', ''clk_o''), (''o_O'', ''pads.clk_p''), (''o_OB'', ''pads.clk_n'')])]
      else [])"

definition tx_specials :: "special list" where
  "tx_specials =
     [(''OSERDESE3'', [(''o_OQ'', ''serdes_o''), (''i_RST'', ''ResetSignal(sys)''),
                       (''i_CLK'', ''ClockSignal(sys4x)''), (''i_CLKDIV'', ''ClockSignal(sys)''),
                       (''i_D'', ''self.tx_gearbox.o'')]),
      (''OBUFDS'', [(''i_I'', ''serdes_o''), (''o_O'', ''pads.tx_p''), (''o_OB'', ''pads.tx_n'')])]"

definition use_bufr :: bool where
  "use_bufr = True"

definition rx_clock_specials :: "string \<Rightarrow> special list" where
  "rx_clock_specials mode =
     (if mode = ''slave'' then
        [(''IBUFDS'', [(''i_I'', ''pads.clk_p''), (''i_IB'', ''pads.clk_n''), (''o_O'', ''clk_i'')])] @
        (if use_bufr then
           [(''BUFR'', [(''i_I'', ''clk_i''), (''o_O'', ''clk_i_bufr'')]),
            (''BUFG'', [(''i_I'', ''clk_i_bufr''), (''o_O'', ''clk_i_bufg'')])]
         else [(''BUFG'', [(''i_I'', ''clk_i''), (''o_O'', ''clk_i_bufg'')])])
      else [])"

definition rx_specials :: "special list" where
  "rx_specials =
     [(''IBUFDS_DIFF_OUT'', [(''i_I'', ''pads.rx_p''), (''i_IB'', ''pads.rx_n''),
                             (''o_O'', ''serdes_i_nodelay'')]),
      (''IDELAYE3'', [(''i_CLK'', ''ClockSignal(sys)''), (''i_RST'', ''rx_delay_rst''),
                      (''i_LOAD'', ''0''), (''i_INC'', ''rx_delay_inc''),
                      (''i_EN_VTC'', ''rx_delay_en_vtc''), (''i_CE'', ''rx_delay_ce''),
                      (''i_IDATAIN'', ''serdes_i_nodelay''), (''o_DATAOUT'', ''serdes_i_delayed'')]),
      (''ISERDESE3'', [(''i_D'', ''serdes_i_delayed''), (''i_RST'', ''ResetSignal(sys)''),
                       (''i_FIFO_RD_CLK'', ''0''), (''i_FIFO_RD_EN'', ''0''),
                       (''i_CLK'', ''ClockSignal(sys4x)''), (''i_CLK_B'', ''ClockSignal(sys4x)''),
                       (''i_CLKDIV'', ''ClockSignal(sys)''), (''o_Q'', ''serdes_q'')])]"

text \<open>
  The module: \<open>refclk\<close> is the net that drives \<open>self.refclk\<close> when the attribute
  exists, \<open>tx_clk_gearbox_i\<close> the word fed to \<open>tx_clk_gearbox\<close> when that submodule
  exists, \<open>specials\<close> the list \<open>self.specials\<close> in the order of the statements, and
  the two datapaths the combinatorial and synchronous statements of
  \<open>tx datapath\<close> and \<open>rx datapath\<close>.
\<close>

record ('e, 'b, 'd) kusserdes =
  refclk :: "string option"
  tx_clk_gearbox_i :: "40 word option"
  specials :: "special list"
  tx_datapath :: "('e, lane lanes, 10 word lanes) machine \<Rightarrow> ('e, tx_in, 40 word) machine"
  rx_datapath :: "('b, 6 word \<times> 40 word, 40 word) machine \<Rightarrow> ('d, 10 word, lane) machine \<Rightarrow>
                  ('b \<times> 'd lanes, rx_in, rx_out) machine"

definition KUSSerdes :: "string \<Rightarrow> ('e, 'b, 'd) kusserdes" where
  "KUSSerdes mode =
     \<lparr>refclk = (if mode = ''slave'' then Some ''clk_i_bufg'' else None),
      tx_clk_gearbox_i = (if mode = ''master'' then Some tx_clk_word else None),
      specials = multiregs @ tx_clock_specials mode @ tx_specials @
                 rx_clock_specials mode @ rx_specials,
      tx_datapath = tx_cycle,
      rx_datapath = rx_cycle\<rparr>"

subsection \<open>Reading the netlist\<close>

text \<open>
  The ports of an \<open>Instance\<close> carry their direction in their name: \<open>i_\<close> for an
  input, \<open>o_\<close> for an output. The primitives that drive a net, each with its name
  and the nets on its inputs, and the names of the primitives that read a net.
\<close>

definition outputs_of :: "special \<Rightarrow> string list" where
  "outputs_of sp = map snd (filter (\<lambda>pn. take 2 (fst pn) = ''o_'') (snd sp))"

definition inputs_of :: "special \<Rightarrow> string list" where
  "inputs_of sp = map snd (filter (\<lambda>pn. take 2 (fst pn) = ''i_'') (snd sp))"

definition nets_of :: "special \<Rightarrow> string list" where
  "nets_of sp = map snd (snd sp)"

definition drivers_of :: "special list \<Rightarrow> string \<Rightarrow> (string \<times> string list) list" where
  "drivers_of sps net =
     map (\<lambda>sp. (fst sp, inputs_of sp)) (filter (\<lambda>sp. List.member (outputs_of sp) net) sps)"

definition readers_of :: "special list \<Rightarrow> string \<Rightarrow> string list" where
  "readers_of sps net = map fst (filter (\<lambda>sp. List.member (inputs_of sp) net) sps)"

subsection \<open>The bit rotation\<close>

text \<open>
  Modelled from the spec: the implementation of \<open>BitSlip\<close> (migen) is not among
  the sources. Sections 3 and 4.2: the alignment offset is the bit rotation of the
  receive stream that recovers the symbol boundary; the aligner rotates the
  sampling window by one bit position at a time, over all positions of the
  symbol. For the 40-bit group of \<open>BitSlip(40)\<close> the positions are 0 to 39, and the
  window at position \<open>n\<close> is the 40 bits that start at bit \<open>n\<close> of the last two
  groups received, the older one lowest. The state is these two groups; each
  cycle the newer group becomes the older and the input the newer. A value that
  is no position selects no window, and the output, which nothing assigns then,
  holds its reset value 0.
\<close>

definition bitslip_positions :: "nat list" where
  "bitslip_positions = [0..<40]"

definition bitslip_window :: "80 word \<Rightarrow> nat \<Rightarrow> 40 word" where
  "bitslip_window r n = ucast (drop_bit n r)"

definition bitslip_offset :: "6 word \<Rightarrow> nat option" where
  "bitslip_offset v = find (\<lambda>n. n = unat v) bitslip_positions"

definition BitSlip40 :: "(80 word, 6 word \<times> 40 word, 40 word) machine" where
  "BitSlip40 r vi =
     (ucast (drop_bit 40 r) OR push_bit 40 (ucast (snd vi)),
      case bitslip_offset (fst vi) of Some n \<Rightarrow> bitslip_window r n | None \<Rightarrow> 0)"

section \<open>The core (core.py)\<close>

subsection \<open>What \<open>SERWBCore(phy, clk_freq, mode, with_scrambling)\<close> builds\<close>

text \<open>
  The stages of the core. \<open>Serdes\<close> stands for \<open>phy.serdes\<close>: its sink is
  \<open>tx_k\<close>/\<open>tx_d\<close>, its source \<open>rx_k\<close>/\<open>rx_d\<close>.
\<close>

datatype stage =
  Etherbone | Packetizer | Depacketizer | Tx_cdc | Rx_cdc | Scrambler | Descrambler | Serdes

text \<open>
  \<open>stream.AsyncFIFO(layout, depth)\<close> under
  \<open>ClockDomainsRenamer({"write": .., "read": ..})\<close>.
\<close>

record async_fifo =
  layout :: "(string \<times> nat) list"
  depth :: nat
  cd_write :: string
  cd_read :: string

text \<open>
  Of \<open>phy\<close> the constructor reads \<open>phy.cd\<close>, the name of the clock domain of the
  phy, here the argument \<open>phy_cd\<close>. Modules that no \<open>ClockDomainsRenamer\<close> wraps
  stay in the default domain \<open>sys\<close>. A connection \<open>(a, b)\<close> says that the source of
  \<open>a\<close> feeds the sink of \<open>b\<close>; the list follows the order of the \<open>comb\<close> block. The
  one from the scrambler to the serdes is the \<open>If(phy.init.ready, ...)\<close> statement,
  the one from the serdes to the descrambler the three assignments to
  \<open>descrambler.sink\<close>; the others are \<open>connect\<close> calls.
\<close>

record serwbcore =
  etherbone_mode :: string
  depacketizer_clk_freq :: int
  tx_cdc :: async_fifo
  rx_cdc :: async_fifo
  scrambler_enable :: bool
  scrambler_cd :: string
  descrambler_enable :: bool
  descrambler_cd :: string
  serdes_cd :: string
  connections :: "(stage \<times> stage) list"

definition SERWBCore :: "string \<Rightarrow> int \<Rightarrow> string \<Rightarrow> bool \<Rightarrow> serwbcore" where
  "SERWBCore phy_cd clk_freq mode with_scrambling =
     \<lparr>etherbone_mode = mode,
      depacketizer_clk_freq = clk_freq,
      tx_cdc = \<lparr>layout = [(''data'', 32)], depth = 16, cd_write = ''sys'', cd_read = phy_cd\<rparr>,
      rx_cdc = \<lparr>layout = [(''data'', 32)], depth = 16, cd_write = phy_cd, cd_read = ''sys''\<rparr>,
      scrambler_enable = with_scrambling,
      scrambler_cd = phy_cd,
      descrambler_enable = with_scrambling,
      descrambler_cd = phy_cd,
      serdes_cd = phy_cd,
      connections =
        [(Packetizer, Tx_cdc), (Tx_cdc, Scrambler), (Scrambler, Serdes),
         (Serdes, Descrambler), (Descrambler, Rx_cdc), (Rx_cdc, Depacketizer),
         (Depacketizer, Etherbone), (Etherbone, Packetizer)]\<rparr>"

text \<open>The call that leaves \<open>with_scrambling\<close> to its default.\<close>

definition SERWBCore_default :: "string \<Rightarrow> int \<Rightarrow> string \<Rightarrow> serwbcore" where
  "SERWBCore_default phy_cd clk_freq mode = SERWBCore phy_cd clk_freq mode True"

text \<open>The clock domain of the sink and of the source of a stage.\<close>

fun sink_cd :: "serwbcore \<Rightarrow> stage \<Rightarrow> string" where
  "sink_cd c Tx_cdc = cd_write (tx_cdc c)"
| "sink_cd c Rx_cdc = cd_write (rx_cdc c)"
| "sink_cd c Scrambler = scrambler_cd c"
| "sink_cd c Descrambler = descrambler_cd c"
| "sink_cd c Serdes = serdes_cd c"
| "sink_cd c _ = ''sys''"

fun source_cd :: "serwbcore \<Rightarrow> stage \<Rightarrow> string" where
  "source_cd c Tx_cdc = cd_read (tx_cdc c)"
| "source_cd c Rx_cdc = cd_read (rx_cdc c)"
| "source_cd c Scrambler = scrambler_cd c"
| "source_cd c Descrambler = descrambler_cd c"
| "source_cd c Serdes = serdes_cd c"
| "source_cd c _ = ''sys''"





subsection \<open>The combinatorial statements between the core and the phy\<close>

record core_in =
  phy_init_ready :: bool
  scrambler_source_valid :: bool
  scrambler_source_k :: "4 word"
  scrambler_source_d :: "32 word"
  serdes_rx_k :: "4 word"
  serdes_rx_d :: "32 word"

record core_out =
  serdes_tx_k :: "4 word"
  serdes_tx_d :: "32 word"
  scrambler_source_ready :: bool
  descrambler_sink_valid :: bool
  descrambler_sink_k :: "4 word"
  descrambler_sink_d :: "32 word"

definition core_comb :: "core_in \<Rightarrow> core_out" where
  "core_comb i =
     \<lparr>serdes_tx_k =
        (if phy_init_ready i then
           (if scrambler_source_valid i then scrambler_source_k i else 0)
         else 0),
      serdes_tx_d =
        (if phy_init_ready i then
           (if scrambler_source_valid i then scrambler_source_d i else 0)
         else 0),
      scrambler_source_ready = (if phy_init_ready i then True else False),
      descrambler_sink_valid = phy_init_ready i,
      descrambler_sink_k = serdes_rx_k i,
      descrambler_sink_d = serdes_rx_d i\<rparr>"

text \<open>A word passes a stream endpoint in the cycles where valid and ready both hold.\<close>

definition transfer :: "bool \<Rightarrow> bool \<Rightarrow> bool" where
  "transfer valid ready = (valid \<and> ready)"

subsection \<open>The clock domain bridge\<close>

text \<open>
  Modelled from the spec: the implementation of \<open>stream.AsyncFIFO\<close> is not among
  the sources. Section 5 describes each direction of the bridge as a bounded FIFO
  queue with ready/valid backpressure: a producer may enqueue only when the queue
  is not full, and a consumer dequeues only when data is present. The two sides
  run on clocks of their own, so a run of the queue is any interleaving of offers
  of the writing side (\<open>Enq w\<close>: valid with the word \<open>w\<close>) and takes of the reading
  side (\<open>Deq\<close>: ready). \<open>accepted\<close> collects the words the writing side handed
  over, \<open>delivered\<close> the words the reading side took.
\<close>

datatype fifo_event = Enq "32 word" | Deq

record fifo =
  queue :: "32 word list"
  accepted :: "32 word list"
  delivered :: "32 word list"

definition fifo_empty :: fifo where
  "fifo_empty = \<lparr>queue = [], accepted = [], delivered = []\<rparr>"

fun fifo_step :: "nat \<Rightarrow> fifo \<Rightarrow> fifo_event \<Rightarrow> fifo" where
  "fifo_step n t (Enq w) =
     (if length (queue t) < n
      then t\<lparr>queue := queue t @ [w], accepted := accepted t @ [w]\<rparr>
      else t)"
| "fifo_step n t Deq =
     (case queue t of
        [] \<Rightarrow> t
      | w # q \<Rightarrow> t\<lparr>queue := q, delivered := delivered t @ [w]\<rparr>)"

definition fifo_run :: "async_fifo \<Rightarrow> fifo_event list \<Rightarrow> fifo" where
  "fifo_run f es = foldl (fifo_step (depth f)) fifo_empty es"

subsection \<open>The scrambler and the descrambler\<close>

text \<open>
  Modelled from the spec: \<open>liteiclink/serwb/scrambler.py\<close> is not among the
  sources. Section 4.4: the scrambler XORs each outgoing word with a value derived
  from an LFSR advanced every word and feeds the scrambled output back into the
  LFSR; the descrambler rebuilds the sequence from the received stream; a bypass
  (identity) mode is configurable. The LFSR is a parameter: \<open>derive\<close> gives the
  whitening value of a state, \<open>feed\<close> advances the state with a scrambled word.
\<close>

definition scramble :: "bool \<Rightarrow> ('s \<Rightarrow> 32 word) \<Rightarrow> ('s \<Rightarrow> 32 word \<Rightarrow> 's) \<Rightarrow>
    ('s, 32 word, 32 word) machine" where
  "scramble enable derive feed s w =
     (if enable then (let x = w XOR derive s in (feed s x, x)) else (s, w))"

definition descramble :: "bool \<Rightarrow> ('s \<Rightarrow> 32 word) \<Rightarrow> ('s \<Rightarrow> 32 word \<Rightarrow> 's) \<Rightarrow>
    ('s, 32 word, 32 word) machine" where
  "descramble enable derive feed s x =
     (if enable then (feed s x, x XOR derive s) else (s, x))"

section \<open>Facts about slicing and concatenation\<close>

lemma decoder_inputs_cat_outputs: "decoder_inputs (cat_outputs out) = out"
  by (cases out)
     (simp add: decoder_inputs_def cat_outputs_def, intro conjI bit_word_eqI;
      (auto simp: bit_simps dest: bit_imp_le_length)?)

lemma cat_outputs_decoder_inputs: "cat_outputs (decoder_inputs g) = g"
  unfolding decoder_inputs_def cat_outputs_def
  apply (rule bit_word_eqI)
  apply (auto simp: bit_simps)
  apply (rule ccontr, simp add: not_less)
  done

lemma rx_d_of_encoder_inputs: "rx_d_of (encoder_inputs False k d) = d"
  unfolding encoder_inputs_def rx_d_of_def
  apply (rule bit_word_eqI)
  apply (auto simp: bit_simps)
  apply (rule ccontr, simp add: not_less)
  done

lemma less_4_cases: "n < (4::nat) \<longleftrightarrow> n = 0 \<or> n = 1 \<or> n = 2 \<or> n = 3"
  by auto

lemma rx_k_of_encoder_inputs: "rx_k_of (encoder_inputs False k d) = k"
  unfolding encoder_inputs_def rx_k_of_def
  by (rule bit_word_eqI) (auto simp: bit_simps less_4_cases)

lemma rx_d_of_slices:
  "ucast (rx_d_of dec) = lane_d (l0 dec)"
  "ucast (drop_bit 8 (rx_d_of dec)) = lane_d (l1 dec)"
  "ucast (drop_bit 16 (rx_d_of dec)) = lane_d (l2 dec)"
  "ucast (drop_bit 24 (rx_d_of dec)) = lane_d (l3 dec)"
  unfolding rx_d_of_def
  by (rule bit_word_eqI; auto simp: bit_simps dest: bit_imp_le_length)+

lemma rx_k_of_bits:
  "bit (rx_k_of dec) 0 = lane_k (l0 dec)"
  "bit (rx_k_of dec) 1 = lane_k (l1 dec)"
  "bit (rx_k_of dec) 2 = lane_k (l2 dec)"
  "bit (rx_k_of dec) 3 = lane_k (l3 dec)"
  unfolding rx_k_of_def
  by (auto simp: bit_simps)

lemma tx_clk_word_lanes: "decoder_inputs tx_clk_word = Lanes 0x3E0 0x3E0 0x3E0 0x3E0"
  by (simp add: decoder_inputs_def tx_clk_word_def)

section \<open>Facts about the cycles\<close>

lemma snd_tx_cycle:
  "snd (tx_cycle encoder es i) =
     tx_gearbox_i_next (tx_idle i)
       (snd (encoder es (encoder_inputs (tx_comma i) (tx_k i) (tx_d i))))"
  by (simp add: tx_cycle_def split: prod.splits)

lemma snd_decode_lanes:
  "snd (decode_lanes decoder ds ins) =
     Lanes (snd (decoder (l0 ds) (l0 ins))) (snd (decoder (l1 ds) (l1 ins)))
           (snd (decoder (l2 ds) (l2 ins))) (snd (decoder (l3 ds) (l3 ins)))"
  by (simp add: decode_lanes_def Let_def)

lemma snd_rx_cycle:
  "snd (rx_cycle bitslip decoder s i) =
     rx_outputs (snd (bitslip (fst s) (rx_bitslip_inputs i)))
       (snd (decode_lanes decoder (snd s)
          (decoder_inputs (snd (bitslip (fst s) (rx_bitslip_inputs i))))))"
  by (simp add: rx_cycle_def split: prod.splits)

lemma comma_inputs: "encoder_inputs True k d = comma_lanes"
  by (simp add: encoder_inputs_def comma_lanes_def lane_reset_def)

lemma rx_comma_of_iff: "rx_comma_of dec = (dec = comma_lanes)"
  by (cases dec) (auto simp: rx_comma_of_def comma_lanes_def)

lemma core_comb_not_ready:
  "\<not> phy_init_ready i \<Longrightarrow>
   core_comb i = \<lparr>serdes_tx_k = 0, serdes_tx_d = 0, scrambler_source_ready = False,
                  descrambler_sink_valid = False, descrambler_sink_k = serdes_rx_k i,
                  descrambler_sink_d = serdes_rx_d i\<rparr>"
  by (simp add: core_comb_def)

section \<open>Facts about the bridge and the bypass\<close>

text \<open>
  The invariant of the queue: the words handed over are the words taken followed
  by the words still queued, and the queue never holds more than its depth.
\<close>

lemma fifo_step_inv:
  "accepted t = delivered t @ queue t \<Longrightarrow> length (queue t) \<le> n \<Longrightarrow>
   accepted (fifo_step n t e) = delivered (fifo_step n t e) @ queue (fifo_step n t e) \<and>
   length (queue (fifo_step n t e)) \<le> n"
  by (cases e) (auto split: list.splits)

lemma fifo_foldl_inv:
  "accepted t = delivered t @ queue t \<Longrightarrow> length (queue t) \<le> n \<Longrightarrow>
   accepted (foldl (fifo_step n) t es) =
     delivered (foldl (fifo_step n) t es) @ queue (foldl (fifo_step n) t es) \<and>
   length (queue (foldl (fifo_step n) t es)) \<le> n"
proof (induction es arbitrary: t)
  case Nil
  then show ?case by simp
next
  case (Cons e es)
  from fifo_step_inv [OF Cons.prems] Cons.IH [of "fifo_step n t e"]
  show ?case by simp
qed

lemma fifo_run_inv:
  "accepted (fifo_run f es) = delivered (fifo_run f es) @ queue (fifo_run f es) \<and>
   length (queue (fifo_run f es)) \<le> depth f"
  unfolding fifo_run_def by (rule fifo_foldl_inv) (simp_all add: fifo_empty_def)

lemma run_scramble_bypass: "run (scramble False derive feed) s ws = ws"
  by (induction ws arbitrary: s) (simp_all add: scramble_def)

lemma run_descramble_bypass: "run (descramble False derive feed) s ws = ws"
  by (induction ws arbitrary: s) (simp_all add: descramble_def)

section \<open>Facts about runs of the datapaths\<close>

lemma run_tx_cycle:
  "run (tx_cycle encoder) es txs =
     map2 (\<lambda>i out. tx_gearbox_i_next (tx_idle i) out) txs
       (run encoder es (map (\<lambda>i. encoder_inputs (tx_comma i) (tx_k i) (tx_d i)) txs))"
  by (induction txs arbitrary: es) (simp_all add: tx_cycle_def split: prod.splits)

lemma run_rx_cycle:
  "run (rx_cycle bitslip decoder) (b, ds) rxs =
     map2 rx_outputs (run bitslip b (map rx_bitslip_inputs rxs))
       (run (decode_lanes decoder) ds
          (map decoder_inputs (run bitslip b (map rx_bitslip_inputs rxs))))"
  by (induction rxs arbitrary: b ds) (simp_all add: rx_cycle_def split: prod.splits)

lemma fst_decode_lanes:
  "fst (decode_lanes decoder ds ins) =
     Lanes (fst (decoder (l0 ds) (l0 ins))) (fst (decoder (l1 ds) (l1 ins)))
           (fst (decoder (l2 ds) (l2 ins))) (fst (decoder (l3 ds) (l3 ins)))"
  by (simp add: decode_lanes_def Let_def)

lemma run_decode_lanes:
  "map l0 (run (decode_lanes decoder) ds inss) = run decoder (l0 ds) (map l0 inss)"
  "map l1 (run (decode_lanes decoder) ds inss) = run decoder (l1 ds) (map l1 inss)"
  "map l2 (run (decode_lanes decoder) ds inss) = run decoder (l2 ds) (map l2 inss)"
  "map l3 (run (decode_lanes decoder) ds inss) = run decoder (l3 ds) (map l3 inss)"
  by (induction inss arbitrary: ds;
      simp add: decode_lanes_def Let_def split: prod.splits)+

lemma length_run: "length (run m s xs) = length xs"
  by (induction xs arbitrary: s) (simp_all split: prod.splits)

lemma fst_rx_cycle:
  "fst (rx_cycle bitslip decoder s i) =
     (fst (bitslip (fst s) (rx_bitslip_inputs i)),
      fst (decode_lanes decoder (snd s)
         (decoder_inputs (snd (bitslip (fst s) (rx_bitslip_inputs i))))))"
  by (simp add: rx_cycle_def split: prod.splits)

lemma fst_tx_cycle:
  "fst (tx_cycle encoder es i) =
     fst (encoder es (encoder_inputs (tx_comma i) (tx_k i) (tx_d i)))"
  by (simp add: tx_cycle_def split: prod.splits)

lemma map_map2_right:
  "length xs = length ys \<Longrightarrow> (\<And>x y. f (g x y) = h y) \<Longrightarrow> map f (map2 g xs ys) = map h ys"
  by (induction xs ys rule: list_induct2) simp_all

lemma map_map2_left:
  "length xs = length ys \<Longrightarrow> (\<And>x y. f (g x y) = h x) \<Longrightarrow> map f (map2 g xs ys) = map h xs"
  by (induction xs ys rule: list_induct2) simp_all

lemma rx_d_lanes_seq:
  "map (\<lambda>r. ucast (rx_d r)) (run (rx_cycle bitslip decoder) (b, ds) rxs) =
   map lane_d (run decoder (l0 ds)
     (map (\<lambda>g. ucast g) (run bitslip b (map rx_bitslip_inputs rxs))))"
  "map (\<lambda>r. ucast (drop_bit 8 (rx_d r))) (run (rx_cycle bitslip decoder) (b, ds) rxs) =
   map lane_d (run decoder (l1 ds)
     (map (\<lambda>g. ucast (drop_bit 10 g)) (run bitslip b (map rx_bitslip_inputs rxs))))"
  "map (\<lambda>r. ucast (drop_bit 16 (rx_d r))) (run (rx_cycle bitslip decoder) (b, ds) rxs) =
   map lane_d (run decoder (l2 ds)
     (map (\<lambda>g. ucast (drop_bit 20 g)) (run bitslip b (map rx_bitslip_inputs rxs))))"
  "map (\<lambda>r. ucast (drop_bit 24 (rx_d r))) (run (rx_cycle bitslip decoder) (b, ds) rxs) =
   map lane_d (run decoder (l3 ds)
     (map (\<lambda>g. ucast (drop_bit 30 g)) (run bitslip b (map rx_bitslip_inputs rxs))))"
proof -
  let ?bos = "run bitslip b (map rx_bitslip_inputs rxs)"
  let ?decs = "run (decode_lanes decoder) ds (map decoder_inputs ?bos)"
  have len: "length ?bos = length ?decs" by (simp add: length_run)
  have "map (\<lambda>r. ucast (rx_d r)) (run (rx_cycle bitslip decoder) (b, ds) rxs) =
        map (\<lambda>dec. lane_d (l0 dec)) ?decs"
    unfolding run_rx_cycle
    by (rule map_map2_right [OF len]) (simp add: rx_outputs_def rx_d_of_slices)
  also have "\<dots> = map lane_d (map l0 ?decs)" by simp
  finally show "map (\<lambda>r. ucast (rx_d r)) (run (rx_cycle bitslip decoder) (b, ds) rxs) =
   map lane_d (run decoder (l0 ds) (map (\<lambda>g. ucast g) ?bos))"
    by (simp add: run_decode_lanes decoder_inputs_def comp_def)
  have "map (\<lambda>r. ucast (drop_bit 8 (rx_d r))) (run (rx_cycle bitslip decoder) (b, ds) rxs) =
        map (\<lambda>dec. lane_d (l1 dec)) ?decs"
    unfolding run_rx_cycle
    by (rule map_map2_right [OF len]) (simp add: rx_outputs_def rx_d_of_slices)
  also have "\<dots> = map lane_d (map l1 ?decs)" by simp
  finally show "map (\<lambda>r. ucast (drop_bit 8 (rx_d r))) (run (rx_cycle bitslip decoder) (b, ds) rxs) =
   map lane_d (run decoder (l1 ds) (map (\<lambda>g. ucast (drop_bit 10 g)) ?bos))"
    by (simp add: run_decode_lanes decoder_inputs_def comp_def)
  have "map (\<lambda>r. ucast (drop_bit 16 (rx_d r))) (run (rx_cycle bitslip decoder) (b, ds) rxs) =
        map (\<lambda>dec. lane_d (l2 dec)) ?decs"
    unfolding run_rx_cycle
    by (rule map_map2_right [OF len]) (simp add: rx_outputs_def rx_d_of_slices)
  also have "\<dots> = map lane_d (map l2 ?decs)" by simp
  finally show "map (\<lambda>r. ucast (drop_bit 16 (rx_d r))) (run (rx_cycle bitslip decoder) (b, ds) rxs) =
   map lane_d (run decoder (l2 ds) (map (\<lambda>g. ucast (drop_bit 20 g)) ?bos))"
    by (simp add: run_decode_lanes decoder_inputs_def comp_def)
  have "map (\<lambda>r. ucast (drop_bit 24 (rx_d r))) (run (rx_cycle bitslip decoder) (b, ds) rxs) =
        map (\<lambda>dec. lane_d (l3 dec)) ?decs"
    unfolding run_rx_cycle
    by (rule map_map2_right [OF len]) (simp add: rx_outputs_def rx_d_of_slices)
  also have "\<dots> = map lane_d (map l3 ?decs)" by simp
  finally show "map (\<lambda>r. ucast (drop_bit 24 (rx_d r))) (run (rx_cycle bitslip decoder) (b, ds) rxs) =
   map lane_d (run decoder (l3 ds) (map (\<lambda>g. ucast (drop_bit 30 g)) ?bos))"
    by (simp add: run_decode_lanes decoder_inputs_def comp_def)
qed

lemma rx_k_lanes_seq:
  "map (\<lambda>r. bit (rx_k r) 0) (run (rx_cycle bitslip decoder) (b, ds) rxs) =
   map lane_k (run decoder (l0 ds)
     (map (\<lambda>g. ucast g) (run bitslip b (map rx_bitslip_inputs rxs))))"
  "map (\<lambda>r. bit (rx_k r) 1) (run (rx_cycle bitslip decoder) (b, ds) rxs) =
   map lane_k (run decoder (l1 ds)
     (map (\<lambda>g. ucast (drop_bit 10 g)) (run bitslip b (map rx_bitslip_inputs rxs))))"
  "map (\<lambda>r. bit (rx_k r) 2) (run (rx_cycle bitslip decoder) (b, ds) rxs) =
   map lane_k (run decoder (l2 ds)
     (map (\<lambda>g. ucast (drop_bit 20 g)) (run bitslip b (map rx_bitslip_inputs rxs))))"
  "map (\<lambda>r. bit (rx_k r) 3) (run (rx_cycle bitslip decoder) (b, ds) rxs) =
   map lane_k (run decoder (l3 ds)
     (map (\<lambda>g. ucast (drop_bit 30 g)) (run bitslip b (map rx_bitslip_inputs rxs))))"
proof -
  let ?bos = "run bitslip b (map rx_bitslip_inputs rxs)"
  let ?decs = "run (decode_lanes decoder) ds (map decoder_inputs ?bos)"
  have len: "length ?bos = length ?decs" by (simp add: length_run)
  have "map (\<lambda>r. bit (rx_k r) 0) (run (rx_cycle bitslip decoder) (b, ds) rxs) =
        map (\<lambda>dec. lane_k (l0 dec)) ?decs"
    unfolding run_rx_cycle
    by (rule map_map2_right [OF len]) (use rx_k_of_bits in \<open>simp add: rx_outputs_def\<close>)
  also have "\<dots> = map lane_k (map l0 ?decs)" by simp
  finally show "map (\<lambda>r. bit (rx_k r) 0) (run (rx_cycle bitslip decoder) (b, ds) rxs) =
   map lane_k (run decoder (l0 ds) (map (\<lambda>g. ucast g) ?bos))"
    by (simp add: run_decode_lanes decoder_inputs_def comp_def)
  have "map (\<lambda>r. bit (rx_k r) 1) (run (rx_cycle bitslip decoder) (b, ds) rxs) =
        map (\<lambda>dec. lane_k (l1 dec)) ?decs"
    unfolding run_rx_cycle
    by (rule map_map2_right [OF len]) (use rx_k_of_bits in \<open>simp add: rx_outputs_def\<close>)
  also have "\<dots> = map lane_k (map l1 ?decs)" by simp
  finally show "map (\<lambda>r. bit (rx_k r) 1) (run (rx_cycle bitslip decoder) (b, ds) rxs) =
   map lane_k (run decoder (l1 ds) (map (\<lambda>g. ucast (drop_bit 10 g)) ?bos))"
    by (simp add: run_decode_lanes decoder_inputs_def comp_def)
  have "map (\<lambda>r. bit (rx_k r) 2) (run (rx_cycle bitslip decoder) (b, ds) rxs) =
        map (\<lambda>dec. lane_k (l2 dec)) ?decs"
    unfolding run_rx_cycle
    by (rule map_map2_right [OF len]) (use rx_k_of_bits in \<open>simp add: rx_outputs_def\<close>)
  also have "\<dots> = map lane_k (map l2 ?decs)" by simp
  finally show "map (\<lambda>r. bit (rx_k r) 2) (run (rx_cycle bitslip decoder) (b, ds) rxs) =
   map lane_k (run decoder (l2 ds) (map (\<lambda>g. ucast (drop_bit 20 g)) ?bos))"
    by (simp add: run_decode_lanes decoder_inputs_def comp_def)
  have "map (\<lambda>r. bit (rx_k r) 3) (run (rx_cycle bitslip decoder) (b, ds) rxs) =
        map (\<lambda>dec. lane_k (l3 dec)) ?decs"
    unfolding run_rx_cycle
    by (rule map_map2_right [OF len]) (use rx_k_of_bits in \<open>simp add: rx_outputs_def\<close>)
  also have "\<dots> = map lane_k (map l3 ?decs)" by simp
  finally show "map (\<lambda>r. bit (rx_k r) 3) (run (rx_cycle bitslip decoder) (b, ds) rxs) =
   map lane_k (run decoder (l3 ds) (map (\<lambda>g. ucast (drop_bit 30 g)) ?bos))"
    by (simp add: run_decode_lanes decoder_inputs_def comp_def)
qed

section \<open>Facts about the bit rotation\<close>

lemma bitslip_offset_cases:
  "bitslip_offset v = (if unat v < 40 then Some (unat v) else None)"
proof (cases "unat v < 40")
  case True
  then have "find (\<lambda>n. n = unat v) [0..<40] = Some (unat v)"
    by (auto simp: find_Some_iff intro!: exI [of _ "unat v"])
  with True show ?thesis by (simp add: bitslip_offset_def bitslip_positions_def)
next
  case False
  then have "find (\<lambda>n. n = unat v) [0..<40] = None"
    by (auto simp: find_None_iff)
  with False show ?thesis by (simp add: bitslip_offset_def bitslip_positions_def)
qed

lemma bitslip_window_rotates:
  assumes k: "k < 40"
  shows "bitslip_window (ucast g OR push_bit 40 (ucast g)) k = word_rotr k (g :: 40 word)"
  unfolding bitslip_window_def
proof (rule bit_word_eqI)
  fix j assume "j < LENGTH(40)"
  then have j: "j < 40" by simp
  have lhs: "bit (ucast (drop_bit k (ucast g OR push_bit 40 (ucast g) :: 80 word)) :: 40 word) j =
        (bit g (k + j) \<or> (40 \<le> k + j \<and> bit g (k + j - 40)))"
    using j k by (auto simp add: bit_simps dest: bit_imp_le_length)
  have rhs: "bit (word_rotr k g) j = bit g ((k + j) mod 40)"
    using j by (simp add: bit_word_rotr_iff add.commute)
  show "bit (ucast (drop_bit k (ucast g OR push_bit 40 (ucast g) :: 80 word)) :: 40 word) j =
        bit (word_rotr k g) j"
  proof (cases "k + j < 40")
    case True
    then have "(k + j) mod 40 = k + j" by simp
    with True show ?thesis unfolding lhs rhs by simp
  next
    case False
    then have "(k + j) mod 40 = k + j - 40" using j k by (simp add: mod_if)
    moreover have "\<not> bit g (k + j)" using False by (auto dest: bit_imp_le_length)
    ultimately show ?thesis using False unfolding lhs rhs by simp
  qed
qed

section \<open>Facts about the netlist\<close>

lemma specials_master:
  "specials (KUSSerdes ''master'' :: ('e, 'b, 'd) kusserdes) =
     multiregs @ tx_clock_specials ''master'' @ tx_specials @ rx_specials"
  by (simp add: KUSSerdes_def rx_clock_specials_def)

lemma specials_slave:
  "specials (KUSSerdes ''slave'' :: ('e, 'b, 'd) kusserdes) =
     multiregs @ tx_specials @ rx_clock_specials ''slave'' @ rx_specials"
  by (simp add: KUSSerdes_def tx_clock_specials_def)

lemma specials_any_mode:
  "specials (KUSSerdes m :: ('e, 'b, 'd) kusserdes) =
     (if m = ''master'' then multiregs @ tx_clock_specials ''master'' @ tx_specials @ rx_specials
      else if m = ''slave'' then multiregs @ tx_specials @ rx_clock_specials ''slave'' @ rx_specials
      else multiregs @ tx_specials @ rx_specials)"
  by (simp add: KUSSerdes_def tx_clock_specials_def rx_clock_specials_def)

lemma master_netlist:
  "drivers_of (multiregs @ tx_clock_specials ''master'' @ tx_specials @ rx_specials) ''pads.clk_p'' =
     [(''OBUFDS'', [''clk_o''])]"
  "drivers_of (multiregs @ tx_clock_specials ''master'' @ tx_specials @ rx_specials) ''pads.clk_n'' =
     [(''OBUFDS'', [''clk_o''])]"
  "drivers_of (multiregs @ tx_clock_specials ''master'' @ tx_specials @ rx_specials) ''clk_o'' =
     [(''OSERDESE3'', [''ResetSignal(sys)'', ''ClockSignal(sys4x)'', ''ClockSignal(sys)'',
                       ''self.tx_clk_gearbox.o''])]"
  "readers_of (multiregs @ tx_clock_specials ''master'' @ tx_specials @ rx_specials) ''pads.clk_p'' = []"
  "readers_of (multiregs @ tx_clock_specials ''master'' @ tx_specials @ rx_specials) ''pads.clk_n'' = []"
  by code_simp+

lemma slave_netlist:
  "readers_of (multiregs @ tx_specials @ rx_clock_specials ''slave'' @ rx_specials) ''pads.clk_p'' =
     [''IBUFDS'']"
  "readers_of (multiregs @ tx_specials @ rx_clock_specials ''slave'' @ rx_specials) ''pads.clk_n'' =
     [''IBUFDS'']"
  "drivers_of (multiregs @ tx_specials @ rx_clock_specials ''slave'' @ rx_specials) ''clk_i'' =
     [(''IBUFDS'', [''pads.clk_p'', ''pads.clk_n''])]"
  "drivers_of (multiregs @ tx_specials @ rx_clock_specials ''slave'' @ rx_specials) ''clk_i_bufr'' =
     [(''BUFR'', [''clk_i''])]"
  "drivers_of (multiregs @ tx_specials @ rx_clock_specials ''slave'' @ rx_specials) ''clk_i_bufg'' =
     [(''BUFG'', [''clk_i_bufr''])]"
  "drivers_of (multiregs @ tx_specials @ rx_clock_specials ''slave'' @ rx_specials) ''pads.clk_p'' = []"
  "drivers_of (multiregs @ tx_specials @ rx_clock_specials ''slave'' @ rx_specials) ''pads.clk_n'' = []"
  by code_simp+

lemma data_netlist_master:
  "drivers_of (multiregs @ tx_clock_specials ''master'' @ tx_specials @ rx_specials) ''pads.tx_p'' =
     [(''OBUFDS'', [''serdes_o''])]"
  "drivers_of (multiregs @ tx_clock_specials ''master'' @ tx_specials @ rx_specials) ''pads.tx_n'' =
     [(''OBUFDS'', [''serdes_o''])]"
  "drivers_of (multiregs @ tx_clock_specials ''master'' @ tx_specials @ rx_specials) ''serdes_o'' =
     [(''OSERDESE3'', [''ResetSignal(sys)'', ''ClockSignal(sys4x)'', ''ClockSignal(sys)'',
                       ''self.tx_gearbox.o''])]"
  "readers_of (multiregs @ tx_clock_specials ''master'' @ tx_specials @ rx_specials) ''pads.rx_p'' =
     [''IBUFDS_DIFF_OUT'']"
  "readers_of (multiregs @ tx_clock_specials ''master'' @ tx_specials @ rx_specials) ''pads.rx_n'' =
     [''IBUFDS_DIFF_OUT'']"
  "drivers_of (multiregs @ tx_clock_specials ''master'' @ tx_specials @ rx_specials) ''serdes_q'' =
     [(''ISERDESE3'', [''serdes_i_delayed'', ''ResetSignal(sys)'', ''0'', ''0'',
                       ''ClockSignal(sys4x)'', ''ClockSignal(sys4x)'', ''ClockSignal(sys)''])]"
  "drivers_of (multiregs @ tx_clock_specials ''master'' @ tx_specials @ rx_specials) ''serdes_i_delayed'' =
     [(''IDELAYE3'', [''ClockSignal(sys)'', ''rx_delay_rst'', ''0'', ''rx_delay_inc'',
                      ''rx_delay_en_vtc'', ''rx_delay_ce'', ''serdes_i_nodelay''])]"
  "drivers_of (multiregs @ tx_clock_specials ''master'' @ tx_specials @ rx_specials) ''serdes_i_nodelay'' =
     [(''IBUFDS_DIFF_OUT'', [''pads.rx_p'', ''pads.rx_n''])]"
  by code_simp+

lemma data_netlist_slave:
  "drivers_of (multiregs @ tx_specials @ rx_clock_specials ''slave'' @ rx_specials) ''pads.tx_p'' =
     [(''OBUFDS'', [''serdes_o''])]"
  "drivers_of (multiregs @ tx_specials @ rx_clock_specials ''slave'' @ rx_specials) ''pads.tx_n'' =
     [(''OBUFDS'', [''serdes_o''])]"
  "drivers_of (multiregs @ tx_specials @ rx_clock_specials ''slave'' @ rx_specials) ''serdes_o'' =
     [(''OSERDESE3'', [''ResetSignal(sys)'', ''ClockSignal(sys4x)'', ''ClockSignal(sys)'',
                       ''self.tx_gearbox.o''])]"
  "readers_of (multiregs @ tx_specials @ rx_clock_specials ''slave'' @ rx_specials) ''pads.rx_p'' =
     [''IBUFDS_DIFF_OUT'']"
  "readers_of (multiregs @ tx_specials @ rx_clock_specials ''slave'' @ rx_specials) ''pads.rx_n'' =
     [''IBUFDS_DIFF_OUT'']"
  "drivers_of (multiregs @ tx_specials @ rx_clock_specials ''slave'' @ rx_specials) ''serdes_q'' =
     [(''ISERDESE3'', [''serdes_i_delayed'', ''ResetSignal(sys)'', ''0'', ''0'',
                       ''ClockSignal(sys4x)'', ''ClockSignal(sys4x)'', ''ClockSignal(sys)''])]"
  "drivers_of (multiregs @ tx_specials @ rx_clock_specials ''slave'' @ rx_specials) ''serdes_i_delayed'' =
     [(''IDELAYE3'', [''ClockSignal(sys)'', ''rx_delay_rst'', ''0'', ''rx_delay_inc'',
                      ''rx_delay_en_vtc'', ''rx_delay_ce'', ''serdes_i_nodelay''])]"
  "drivers_of (multiregs @ tx_specials @ rx_clock_specials ''slave'' @ rx_specials) ''serdes_i_nodelay'' =
     [(''IBUFDS_DIFF_OUT'', [''pads.rx_p'', ''pads.rx_n''])]"
  by code_simp+

lemma data_netlist_other:
  "drivers_of (multiregs @ tx_specials @ rx_specials) ''pads.tx_p'' =
     [(''OBUFDS'', [''serdes_o''])]"
  "drivers_of (multiregs @ tx_specials @ rx_specials) ''pads.tx_n'' =
     [(''OBUFDS'', [''serdes_o''])]"
  "drivers_of (multiregs @ tx_specials @ rx_specials) ''serdes_o'' =
     [(''OSERDESE3'', [''ResetSignal(sys)'', ''ClockSignal(sys4x)'', ''ClockSignal(sys)'',
                       ''self.tx_gearbox.o''])]"
  "readers_of (multiregs @ tx_specials @ rx_specials) ''pads.rx_p'' = [''IBUFDS_DIFF_OUT'']"
  "readers_of (multiregs @ tx_specials @ rx_specials) ''pads.rx_n'' = [''IBUFDS_DIFF_OUT'']"
  "drivers_of (multiregs @ tx_specials @ rx_specials) ''serdes_q'' =
     [(''ISERDESE3'', [''serdes_i_delayed'', ''ResetSignal(sys)'', ''0'', ''0'',
                       ''ClockSignal(sys4x)'', ''ClockSignal(sys4x)'', ''ClockSignal(sys)''])]"
  "drivers_of (multiregs @ tx_specials @ rx_specials) ''serdes_i_delayed'' =
     [(''IDELAYE3'', [''ClockSignal(sys)'', ''rx_delay_rst'', ''0'', ''rx_delay_inc'',
                      ''rx_delay_en_vtc'', ''rx_delay_ce'', ''serdes_i_nodelay''])]"
  "drivers_of (multiregs @ tx_specials @ rx_specials) ''serdes_i_nodelay'' =
     [(''IBUFDS_DIFF_OUT'', [''pads.rx_p'', ''pads.rx_n''])]"
  by code_simp+

lemma data_netlist_any_mode:
  "drivers_of (specials (KUSSerdes m :: ('e, 'b, 'd) kusserdes)) ''pads.tx_p'' =
     [(''OBUFDS'', [''serdes_o''])]"
  "drivers_of (specials (KUSSerdes m :: ('e, 'b, 'd) kusserdes)) ''pads.tx_n'' =
     [(''OBUFDS'', [''serdes_o''])]"
  "drivers_of (specials (KUSSerdes m :: ('e, 'b, 'd) kusserdes)) ''serdes_o'' =
     [(''OSERDESE3'', [''ResetSignal(sys)'', ''ClockSignal(sys4x)'', ''ClockSignal(sys)'',
                       ''self.tx_gearbox.o''])]"
  "readers_of (specials (KUSSerdes m :: ('e, 'b, 'd) kusserdes)) ''pads.rx_p'' = [''IBUFDS_DIFF_OUT'']"
  "readers_of (specials (KUSSerdes m :: ('e, 'b, 'd) kusserdes)) ''pads.rx_n'' = [''IBUFDS_DIFF_OUT'']"
  "drivers_of (specials (KUSSerdes m :: ('e, 'b, 'd) kusserdes)) ''serdes_q'' =
     [(''ISERDESE3'', [''serdes_i_delayed'', ''ResetSignal(sys)'', ''0'', ''0'',
                       ''ClockSignal(sys4x)'', ''ClockSignal(sys4x)'', ''ClockSignal(sys)''])]"
  "drivers_of (specials (KUSSerdes m :: ('e, 'b, 'd) kusserdes)) ''serdes_i_delayed'' =
     [(''IDELAYE3'', [''ClockSignal(sys)'', ''rx_delay_rst'', ''0'', ''rx_delay_inc'',
                      ''rx_delay_en_vtc'', ''rx_delay_ce'', ''serdes_i_nodelay''])]"
  "drivers_of (specials (KUSSerdes m :: ('e, 'b, 'd) kusserdes)) ''serdes_i_nodelay'' =
     [(''IBUFDS_DIFF_OUT'', [''pads.rx_p'', ''pads.rx_n''])]"
  by (simp_all add: specials_any_mode data_netlist_master data_netlist_slave data_netlist_other)

lemma clock_outputs_closed:
  "filter (List.member (concat (map nets_of (multiregs @ tx_specials @ rx_specials))))
     (concat (map outputs_of (tx_clock_specials ''master''))) = []"
  "filter (List.member (concat (map nets_of (multiregs @ tx_specials @ rx_specials))))
     (concat (map outputs_of (rx_clock_specials ''slave''))) = []"
  by code_simp+

lemma clock_outputs_apart:
  "filter (List.member (concat (map nets_of (multiregs @ tx_specials @ rx_specials))))
     (concat (map outputs_of (tx_clock_specials m @ rx_clock_specials m))) = []"
proof -
  have "tx_clock_specials m = [] \<or> tx_clock_specials m = tx_clock_specials ''master''"
    by (simp add: tx_clock_specials_def)
  moreover have "rx_clock_specials m = [] \<or> rx_clock_specials m = rx_clock_specials ''slave''"
    by (simp add: rx_clock_specials_def)
  ultimately show ?thesis
    using clock_outputs_closed by auto
qed

lemma clock_specials_closed:
  "filter (\<lambda>sp. \<not> List.member (tx_clock_specials ''master'') sp)
     (multiregs @ tx_clock_specials ''master'' @ tx_specials @ rx_specials) =
   multiregs @ tx_specials @ rx_specials"
  "filter (\<lambda>sp. \<not> List.member (rx_clock_specials ''slave'') sp)
     (multiregs @ tx_specials @ rx_clock_specials ''slave'' @ rx_specials) =
   multiregs @ tx_specials @ rx_specials"
  by code_simp+

lemma clock_specials_apart:
  "filter (\<lambda>sp. \<not> List.member (tx_clock_specials m @ rx_clock_specials m) sp)
     (specials (KUSSerdes m :: ('e, 'b, 'd) kusserdes)) = multiregs @ tx_specials @ rx_specials"
proof -
  consider "m = ''master''" | "m = ''slave''" | "m \<noteq> ''master''" "m \<noteq> ''slave''"
    by blast
  then show ?thesis
  proof cases
    case 1
    then have "rx_clock_specials m = []" "tx_clock_specials m = tx_clock_specials ''master''"
      by (simp_all add: rx_clock_specials_def)
    then show ?thesis
      using clock_specials_closed(1) by (simp add: specials_any_mode 1)
  next
    case 2
    then have "tx_clock_specials m = []" "rx_clock_specials m = rx_clock_specials ''slave''"
      by (simp_all add: tx_clock_specials_def)
    then show ?thesis
      using clock_specials_closed(2) by (simp add: specials_any_mode 2)
  next
    case 3
    then have "tx_clock_specials m = []" "rx_clock_specials m = []"
      by (simp_all add: tx_clock_specials_def rx_clock_specials_def)
    with 3 show ?thesis
      by (simp add: specials_any_mode)
  qed
qed

section \<open>The core\<close>

text \<open>
  C1. While \<open>phy.init.ready\<close> is deasserted the core exchanges no word with the
  serdes: in every cycle \<open>j\<close> of a trace with \<open>phy.init.ready = 0\<close>,
  \<open>scrambler.source.ready\<close> is 0, \<open>serdes.tx_k\<close> and \<open>serdes.tx_d\<close> hold their
  reset value 0 whatever the scrambler offers, and \<open>descrambler.sink.valid\<close> is 0;
  so no word leaves the scrambler and none enters the descrambler, whatever
  \<open>descrambler.sink.ready\<close> is.
\<close>

theorem no_exchange_before_ready:
  assumes "j < length tr" and "\<not> phy_init_ready (tr ! j)"
  shows "scrambler_source_ready (map core_comb tr ! j) = False \<and>
         serdes_tx_k (map core_comb tr ! j) = 0 \<and>
         serdes_tx_d (map core_comb tr ! j) = 0 \<and>
         descrambler_sink_valid (map core_comb tr ! j) = False \<and>
         transfer (scrambler_source_valid (tr ! j))
                  (scrambler_source_ready (map core_comb tr ! j)) = False \<and>
         transfer (descrambler_sink_valid (map core_comb tr ! j)) sink_ready = False"
  using assms by (simp add: core_comb_not_ready transfer_def)

theorem no_exchange_before_ready_witness:
  "(1::nat) < length
     [\<lparr>phy_init_ready = True, scrambler_source_valid = True,
       scrambler_source_k = 0, scrambler_source_d = 0x100,
       serdes_rx_k = 0, serdes_rx_d = 0\<rparr>,
      \<lparr>phy_init_ready = False, scrambler_source_valid = True,
       scrambler_source_k = 0xF, scrambler_source_d = 0xDEADBEEF,
       serdes_rx_k = 1, serdes_rx_d = 0xBC\<rparr>] \<and>
   serdes_tx_k (map core_comb
     [\<lparr>phy_init_ready = True, scrambler_source_valid = True,
       scrambler_source_k = 0, scrambler_source_d = 0x100,
       serdes_rx_k = 0, serdes_rx_d = 0\<rparr>,
      \<lparr>phy_init_ready = False, scrambler_source_valid = True,
       scrambler_source_k = 0xF, scrambler_source_d = 0xDEADBEEF,
       serdes_rx_k = 1, serdes_rx_d = 0xBC\<rparr>] ! 1) = 0 \<and>
   serdes_tx_d (map core_comb
     [\<lparr>phy_init_ready = True, scrambler_source_valid = True,
       scrambler_source_k = 0, scrambler_source_d = 0x100,
       serdes_rx_k = 0, serdes_rx_d = 0\<rparr>,
      \<lparr>phy_init_ready = False, scrambler_source_valid = True,
       scrambler_source_k = 0xF, scrambler_source_d = 0xDEADBEEF,
       serdes_rx_k = 1, serdes_rx_d = 0xBC\<rparr>] ! 1) = 0 \<and>
   scrambler_source_ready (map core_comb
     [\<lparr>phy_init_ready = True, scrambler_source_valid = True,
       scrambler_source_k = 0, scrambler_source_d = 0x100,
       serdes_rx_k = 0, serdes_rx_d = 0\<rparr>,
      \<lparr>phy_init_ready = False, scrambler_source_valid = True,
       scrambler_source_k = 0xF, scrambler_source_d = 0xDEADBEEF,
       serdes_rx_k = 1, serdes_rx_d = 0xBC\<rparr>] ! 1) = False \<and>
   descrambler_sink_valid (map core_comb
     [\<lparr>phy_init_ready = True, scrambler_source_valid = True,
       scrambler_source_k = 0, scrambler_source_d = 0x100,
       serdes_rx_k = 0, serdes_rx_d = 0\<rparr>,
      \<lparr>phy_init_ready = False, scrambler_source_valid = True,
       scrambler_source_k = 0xF, scrambler_source_d = 0xDEADBEEF,
       serdes_rx_k = 1, serdes_rx_d = 0xBC\<rparr>] ! 1) = False"
  using no_exchange_before_ready [of 1
     "[\<lparr>phy_init_ready = True, scrambler_source_valid = True,
        scrambler_source_k = 0, scrambler_source_d = 0x100,
        serdes_rx_k = 0, serdes_rx_d = 0\<rparr>,
       \<lparr>phy_init_ready = False, scrambler_source_valid = True,
        scrambler_source_k = 0xF, scrambler_source_d = 0xDEADBEEF,
        serdes_rx_k = 1, serdes_rx_d = 0xBC\<rparr>]"]
  by simp


text \<open>
  C5. The two bridges of the core are FIFOs of 32-bit words (\<open>data\<close>) and depth 16:
  \<open>tx_cdc\<close> is written in \<open>sys\<close> and read in the domain of the phy, \<open>rx_cdc\<close>
  the other way round. Every connection of the core joins a source and a sink of
  the same clock domain, and the only stages whose sink and source differ in
  domain are the two FIFOs, so a word changes domain only inside one of them.
  In the queue of section 5 an offered word is taken over only when fewer than
  depth words are queued, a word is handed out only when one is queued, and after
  any interleaving of offers and takes the words taken over are the words handed
  out followed by the words still queued (none dropped, duplicated or reordered),
  with at most 16 queued.
\<close>

theorem clock_domain_bridge:
  "tx_cdc (SERWBCore cd f m ws) =
     \<lparr>layout = [(''data'', 32)], depth = 16, cd_write = ''sys'', cd_read = cd\<rparr> \<and>
   rx_cdc (SERWBCore cd f m ws) =
     \<lparr>layout = [(''data'', 32)], depth = 16, cd_write = cd, cd_read = ''sys''\<rparr> \<and>
   list_all (\<lambda>e. source_cd (SERWBCore cd f m ws) (fst e) = sink_cd (SERWBCore cd f m ws) (snd e))
     (connections (SERWBCore cd f m ws)) \<and>
   (sink_cd (SERWBCore cd f m ws) s \<noteq> source_cd (SERWBCore cd f m ws) s) =
     (cd \<noteq> ''sys'' \<and> (s = Tx_cdc \<or> s = Rx_cdc)) \<and>
   accepted (fifo_step n t (Enq w)) =
     (if length (queue t) < n then accepted t @ [w] else accepted t) \<and>
   delivered (fifo_step n t Deq) =
     (if queue t = [] then delivered t else delivered t @ [hd (queue t)]) \<and>
   accepted (fifo_run (tx_cdc (SERWBCore cd f m ws)) es) =
     delivered (fifo_run (tx_cdc (SERWBCore cd f m ws)) es) @
     queue (fifo_run (tx_cdc (SERWBCore cd f m ws)) es) \<and>
   length (queue (fifo_run (tx_cdc (SERWBCore cd f m ws)) es)) \<le> 16 \<and>
   accepted (fifo_run (rx_cdc (SERWBCore cd f m ws)) es) =
     delivered (fifo_run (rx_cdc (SERWBCore cd f m ws)) es) @
     queue (fifo_run (rx_cdc (SERWBCore cd f m ws)) es) \<and>
   length (queue (fifo_run (rx_cdc (SERWBCore cd f m ws)) es)) \<le> 16"
proof -
  have a: "depth (tx_cdc (SERWBCore cd f m ws)) = 16" "depth (rx_cdc (SERWBCore cd f m ws)) = 16"
    by (simp_all add: SERWBCore_def)
  have b: "(sink_cd (SERWBCore cd f m ws) s \<noteq> source_cd (SERWBCore cd f m ws) s) =
     (cd \<noteq> ''sys'' \<and> (s = Tx_cdc \<or> s = Rx_cdc))"
    by (cases s) (auto simp: SERWBCore_def)
  have c: "delivered (fifo_step n t Deq) =
     (if queue t = [] then delivered t else delivered t @ [hd (queue t)])"
    by (simp split: list.splits)
  show ?thesis
    using fifo_run_inv [of "tx_cdc (SERWBCore cd f m ws)" es]
      fifo_run_inv [of "rx_cdc (SERWBCore cd f m ws)" es] b c
    unfolding a by (simp add: SERWBCore_def)
qed

text \<open>
  C9. The core takes \<open>with_scrambling\<close>, true when the call leaves it out, and
  builds both the Scrambler and the Descrambler with \<open>enable\<close> equal to it. With
  \<open>with_scrambling\<close> false both leave every word of the stream as it is, from any
  state of the LFSR.
\<close>

theorem scrambling_bypass:
  "scrambler_enable (SERWBCore cd f m ws) = ws \<and>
   descrambler_enable (SERWBCore cd f m ws) = ws \<and>
   scrambler_enable (SERWBCore_default cd f m) = True \<and>
   descrambler_enable (SERWBCore_default cd f m) = True \<and>
   run (scramble (scrambler_enable (SERWBCore cd f m False)) derive feed) s xs = xs \<and>
   run (descramble (descrambler_enable (SERWBCore cd f m False)) derive' feed') s' xs = xs"
  by (simp add: SERWBCore_def SERWBCore_default_def run_scramble_bypass run_descramble_bypass)

section \<open>The serdes\<close>

text \<open>
  C3. The comma detector \<open>rx_comma\<close> of the receive datapath is asserted exactly
  when the four decoded lanes are the comma word: lane 0 the control symbol 0xBC,
  lanes 1 to 3 the data symbol 0x00. A word that carries 0xBC on lane 0 as data
  (\<open>k = 0\<close>) does not assert it, whatever the other lanes hold.
\<close>

theorem rx_comma_iff_comma_word:
  "(rx_comma_of dec = (dec = comma_lanes)) \<and>
   rx_comma_of (Lanes \<lparr>lane_k = False, lane_d = 0xbc\<rparr> a b c) = False \<and>
   rx_comma (snd (rx_cycle bitslip decoder s i)) =
     (snd (decode_lanes decoder (snd s)
        (decoder_inputs (snd (bitslip (fst s) (rx_bitslip_inputs i))))) = comma_lanes)"
  by (simp add: rx_comma_of_iff snd_rx_cycle rx_outputs_def)
     (simp add: comma_lanes_def)

text \<open>
  C4. With \<open>tx_comma\<close> the encoder is driven with the comma word (lane 0 the
  control symbol 0xBC, lanes 1 to 3 the data symbol 0x00) whatever \<open>tx_k\<close> and
  \<open>tx_d\<close> are, and that word is the one, and the only one, for which the receive
  side asserts \<open>rx_comma\<close>. Without \<open>tx_comma\<close> lane \<open>n\<close> of the encoder input is bit
  \<open>n\<close> of \<open>tx_k\<close> and byte \<open>n\<close> of \<open>tx_d\<close>, so the lanes together are \<open>tx_k\<close> and
  \<open>tx_d\<close>. An encoder that records its input sees exactly these lanes in a cycle.
\<close>

theorem tx_comma_roundtrip:
  "encoder_inputs True k d = comma_lanes \<and>
   rx_comma_of (encoder_inputs True k d) = True \<and>
   rx_comma_of dec = (dec = encoder_inputs True k d) \<and>
   encoder_inputs False k d =
     Lanes \<lparr>lane_k = bit k 0, lane_d = ucast d\<rparr>
           \<lparr>lane_k = bit k 1, lane_d = ucast (drop_bit 8 d)\<rparr>
           \<lparr>lane_k = bit k 2, lane_d = ucast (drop_bit 16 d)\<rparr>
           \<lparr>lane_k = bit k 3, lane_d = ucast (drop_bit 24 d)\<rparr> \<and>
   rx_k_of (encoder_inputs False k d) = k \<and>
   rx_d_of (encoder_inputs False k d) = d \<and>
   fst (tx_cycle (\<lambda>es x. (x, out)) es0 i) =
     (if tx_comma i then comma_lanes else encoder_inputs False (tx_k i) (tx_d i))"
  by (simp add: comma_inputs rx_comma_of_iff rx_k_of_encoder_inputs rx_d_of_encoder_inputs
      tx_cycle_def)
     (simp add: encoder_inputs_def)

text \<open>
  C6. The codec works on four lanes of the same 8b/10b code. On transmit lane
  \<open>n\<close> of the encoder input is bit \<open>n\<close> of \<open>tx_k\<close> and the 8 bits \<open>tx_d[8n:8n+8]\<close>,
  and the group loaded into the gearbox is the four 10-bit outputs of the encoder
  side by side, lane 0 lowest: splitting a group into 10-bit lanes and joining
  lanes into a group are inverse to each other. On receive the 40-bit group after
  bitslip is split into the four 10-bit lanes \<open>[10n:10n+10]\<close>, decoder \<open>n\<close> reads
  lane \<open>n\<close> only, and \<open>rx_d\<close> and \<open>rx_k\<close> are the \<open>d\<close> and \<open>k\<close> of the four decoders
  side by side: byte \<open>n\<close> of \<open>rx_d\<close> and bit \<open>n\<close> of \<open>rx_k\<close> come from decoder \<open>n\<close>.
  The lanes are decoded independently: in a cycle both the output and the next
  state of decoder \<open>n\<close> come from its own state and lane \<open>n\<close> of the group, and
  over any run byte \<open>n\<close> of \<open>rx_d\<close> and bit \<open>n\<close> of \<open>rx_k\<close> are what decoder \<open>n\<close>,
  run alone from its own state on the stream of lanes \<open>n\<close>, puts out. The encoder
  is stepped once a cycle on the four lanes, and over any run the groups loaded
  are its outputs, joined, or 0 in the idle cycles.
\<close>

theorem four_lane_codec:
  "l0 (encoder_inputs False k d) = \<lparr>lane_k = bit k 0, lane_d = ucast d\<rparr> \<and>
   l1 (encoder_inputs False k d) = \<lparr>lane_k = bit k 1, lane_d = ucast (drop_bit 8 d)\<rparr> \<and>
   l2 (encoder_inputs False k d) = \<lparr>lane_k = bit k 2, lane_d = ucast (drop_bit 16 d)\<rparr> \<and>
   l3 (encoder_inputs False k d) = \<lparr>lane_k = bit k 3, lane_d = ucast (drop_bit 24 d)\<rparr> \<and>
   snd (tx_cycle encoder es (i\<lparr>tx_idle := False\<rparr>)) =
     cat_outputs (snd (encoder es (encoder_inputs (tx_comma i) (tx_k i) (tx_d i)))) \<and>
   decoder_inputs (cat_outputs out) = out \<and>
   cat_outputs (decoder_inputs g) = g \<and>
   decoder_inputs g =
     Lanes (ucast g) (ucast (drop_bit 10 g)) (ucast (drop_bit 20 g)) (ucast (drop_bit 30 g)) \<and>
   snd (decode_lanes decoder ds (decoder_inputs g)) =
     Lanes (snd (decoder (l0 ds) (ucast g)))
           (snd (decoder (l1 ds) (ucast (drop_bit 10 g))))
           (snd (decoder (l2 ds) (ucast (drop_bit 20 g))))
           (snd (decoder (l3 ds) (ucast (drop_bit 30 g)))) \<and>
   rx_d (snd (rx_cycle bitslip decoder s j)) =
     rx_d_of (snd (decode_lanes decoder (snd s)
        (decoder_inputs (snd (bitslip (fst s) (rx_bitslip_inputs j)))))) \<and>
   rx_k (snd (rx_cycle bitslip decoder s j)) =
     rx_k_of (snd (decode_lanes decoder (snd s)
        (decoder_inputs (snd (bitslip (fst s) (rx_bitslip_inputs j)))))) \<and>
   ucast (rx_d_of dec) = lane_d (l0 dec) \<and>
   ucast (drop_bit 8 (rx_d_of dec)) = lane_d (l1 dec) \<and>
   ucast (drop_bit 16 (rx_d_of dec)) = lane_d (l2 dec) \<and>
   ucast (drop_bit 24 (rx_d_of dec)) = lane_d (l3 dec) \<and>
   bit (rx_k_of dec) 0 = lane_k (l0 dec) \<and>
   bit (rx_k_of dec) 1 = lane_k (l1 dec) \<and>
   bit (rx_k_of dec) 2 = lane_k (l2 dec) \<and>
   bit (rx_k_of dec) 3 = lane_k (l3 dec) \<and>
   fst (tx_cycle encoder es i) =
     fst (encoder es (encoder_inputs (tx_comma i) (tx_k i) (tx_d i))) \<and>
   fst (decode_lanes decoder ds (decoder_inputs g)) =
     Lanes (fst (decoder (l0 ds) (ucast g)))
           (fst (decoder (l1 ds) (ucast (drop_bit 10 g))))
           (fst (decoder (l2 ds) (ucast (drop_bit 20 g))))
           (fst (decoder (l3 ds) (ucast (drop_bit 30 g)))) \<and>
   fst (rx_cycle bitslip decoder s j) =
     (fst (bitslip (fst s) (rx_bitslip_inputs j)),
      fst (decode_lanes decoder (snd s)
        (decoder_inputs (snd (bitslip (fst s) (rx_bitslip_inputs j)))))) \<and>
   map l0 (run (decode_lanes decoder) ds inss) = run decoder (l0 ds) (map l0 inss) \<and>
   map l1 (run (decode_lanes decoder) ds inss) = run decoder (l1 ds) (map l1 inss) \<and>
   map l2 (run (decode_lanes decoder) ds inss) = run decoder (l2 ds) (map l2 inss) \<and>
   map l3 (run (decode_lanes decoder) ds inss) = run decoder (l3 ds) (map l3 inss) \<and>
   map (\<lambda>r. ucast (rx_d r)) (run (rx_cycle bitslip decoder) (b, ds) rxs) =
     map lane_d (run decoder (l0 ds)
       (map (\<lambda>g. ucast g) (run bitslip b (map rx_bitslip_inputs rxs)))) \<and>
   map (\<lambda>r. ucast (drop_bit 8 (rx_d r))) (run (rx_cycle bitslip decoder) (b, ds) rxs) =
     map lane_d (run decoder (l1 ds)
       (map (\<lambda>g. ucast (drop_bit 10 g)) (run bitslip b (map rx_bitslip_inputs rxs)))) \<and>
   map (\<lambda>r. ucast (drop_bit 16 (rx_d r))) (run (rx_cycle bitslip decoder) (b, ds) rxs) =
     map lane_d (run decoder (l2 ds)
       (map (\<lambda>g. ucast (drop_bit 20 g)) (run bitslip b (map rx_bitslip_inputs rxs)))) \<and>
   map (\<lambda>r. ucast (drop_bit 24 (rx_d r))) (run (rx_cycle bitslip decoder) (b, ds) rxs) =
     map lane_d (run decoder (l3 ds)
       (map (\<lambda>g. ucast (drop_bit 30 g)) (run bitslip b (map rx_bitslip_inputs rxs)))) \<and>
   map (\<lambda>r. bit (rx_k r) 0) (run (rx_cycle bitslip decoder) (b, ds) rxs) =
     map lane_k (run decoder (l0 ds)
       (map (\<lambda>g. ucast g) (run bitslip b (map rx_bitslip_inputs rxs)))) \<and>
   map (\<lambda>r. bit (rx_k r) 1) (run (rx_cycle bitslip decoder) (b, ds) rxs) =
     map lane_k (run decoder (l1 ds)
       (map (\<lambda>g. ucast (drop_bit 10 g)) (run bitslip b (map rx_bitslip_inputs rxs)))) \<and>
   map (\<lambda>r. bit (rx_k r) 2) (run (rx_cycle bitslip decoder) (b, ds) rxs) =
     map lane_k (run decoder (l2 ds)
       (map (\<lambda>g. ucast (drop_bit 20 g)) (run bitslip b (map rx_bitslip_inputs rxs)))) \<and>
   map (\<lambda>r. bit (rx_k r) 3) (run (rx_cycle bitslip decoder) (b, ds) rxs) =
     map lane_k (run decoder (l3 ds)
       (map (\<lambda>g. ucast (drop_bit 30 g)) (run bitslip b (map rx_bitslip_inputs rxs)))) \<and>
   run (tx_cycle encoder) es txs =
     map2 (\<lambda>i out. tx_gearbox_i_next (tx_idle i) out) txs
       (run encoder es (map (\<lambda>i. encoder_inputs (tx_comma i) (tx_k i) (tx_d i)) txs))"
proof -
  have tx: "snd (tx_cycle encoder es (i\<lparr>tx_idle := False\<rparr>)) =
     cat_outputs (snd (encoder es (encoder_inputs (tx_comma i) (tx_k i) (tx_d i))))"
    by (simp add: snd_tx_cycle tx_gearbox_i_next_def)
  have dl: "snd (decode_lanes decoder ds (decoder_inputs g)) =
     Lanes (snd (decoder (l0 ds) (ucast g)))
           (snd (decoder (l1 ds) (ucast (drop_bit 10 g))))
           (snd (decoder (l2 ds) (ucast (drop_bit 20 g))))
           (snd (decoder (l3 ds) (ucast (drop_bit 30 g))))"
    by (simp add: snd_decode_lanes decoder_inputs_def)
  have dlf: "fst (decode_lanes decoder ds (decoder_inputs g)) =
     Lanes (fst (decoder (l0 ds) (ucast g)))
           (fst (decoder (l1 ds) (ucast (drop_bit 10 g))))
           (fst (decoder (l2 ds) (ucast (drop_bit 20 g))))
           (fst (decoder (l3 ds) (ucast (drop_bit 30 g))))"
    by (simp add: fst_decode_lanes decoder_inputs_def)
  have rx: "rx_d (snd (rx_cycle bitslip decoder s j)) =
     rx_d_of (snd (decode_lanes decoder (snd s)
        (decoder_inputs (snd (bitslip (fst s) (rx_bitslip_inputs j))))))"
    "rx_k (snd (rx_cycle bitslip decoder s j)) =
     rx_k_of (snd (decode_lanes decoder (snd s)
        (decoder_inputs (snd (bitslip (fst s) (rx_bitslip_inputs j))))))"
    by (simp_all add: snd_rx_cycle rx_outputs_def)
  have enc: "l0 (encoder_inputs False k d) = \<lparr>lane_k = bit k 0, lane_d = ucast d\<rparr>"
    "l1 (encoder_inputs False k d) = \<lparr>lane_k = bit k 1, lane_d = ucast (drop_bit 8 d)\<rparr>"
    "l2 (encoder_inputs False k d) = \<lparr>lane_k = bit k 2, lane_d = ucast (drop_bit 16 d)\<rparr>"
    "l3 (encoder_inputs False k d) = \<lparr>lane_k = bit k 3, lane_d = ucast (drop_bit 24 d)\<rparr>"
    by (simp_all add: encoder_inputs_def)
  have di: "decoder_inputs g =
     Lanes (ucast g) (ucast (drop_bit 10 g)) (ucast (drop_bit 20 g)) (ucast (drop_bit 30 g))"
    by (simp add: decoder_inputs_def)
  show ?thesis
    by (intro conjI)
       (fact tx dl dlf rx enc di decoder_inputs_cat_outputs cat_outputs_decoder_inputs
          rx_d_of_slices rx_k_of_bits fst_tx_cycle fst_rx_cycle run_decode_lanes
          rx_d_lanes_seq rx_k_lanes_seq run_tx_cycle)+
qed

text \<open>
  C7. The alignment offset applied to the receive stream is an integer in
  [0, 40). The serdes hands \<open>rx_bitslip_value\<close> to \<open>BitSlip(40)\<close> unchanged. When
  the value selects a rotation, the offset \<open>n\<close> of that rotation is the value
  itself, it is below 40, and the group that goes to the decoders is the window
  at offset \<open>n\<close>. The other values the 6-bit signal can hold, 40 to 63, select no
  rotation and the group is 0. Every offset in [0, 40) can be selected, and on a
  stream that repeats the group \<open>g\<close> the window at offset \<open>n\<close> is \<open>g\<close> rotated by
  \<open>n\<close> bits.
\<close>

theorem bitslip_offset_below_40:
  "(case bitslip_offset (fst (rx_bitslip_inputs i)) of
      Some n \<Rightarrow>
        n < 40 \<and> n = unat (rx_bitslip_value i) \<and>
        snd (BitSlip40 r (rx_bitslip_inputs i)) = bitslip_window r n \<and>
        snd (rx_cycle BitSlip40 decoder (r, ds) i) =
          rx_outputs (bitslip_window r n)
            (snd (decode_lanes decoder ds (decoder_inputs (bitslip_window r n))))
    | None \<Rightarrow>
        40 \<le> unat (rx_bitslip_value i) \<and>
        snd (BitSlip40 r (rx_bitslip_inputs i)) = 0) \<and>
   fst (rx_bitslip_inputs i) = rx_bitslip_value i \<and>
   snd (rx_bitslip_inputs i) = rx_gearbox_o i \<and>
   bitslip_offset (of_nat (n mod 40)) = Some (n mod 40) \<and>
   bitslip_offset 39 = Some 39 \<and>
   bitslip_offset 40 = None \<and>
   bitslip_offset 63 = None \<and>
   snd (BitSlip40 (ucast g OR push_bit 40 (ucast g))
          (rx_bitslip_inputs (i\<lparr>rx_bitslip_value := of_nat (n mod 40)\<rparr>))) =
     word_rotr (n mod 40) g"
proof -
  have u: "unat (of_nat (n mod 40) :: 6 word) = n mod 40"
    by (simp add: unat_of_nat)
  have rot: "bitslip_window (ucast g OR push_bit 40 (ucast g)) (n mod 40) = word_rotr (n mod 40) g"
    by (rule bitslip_window_rotates) simp
  show ?thesis
    by (simp add: bitslip_offset_cases rx_bitslip_inputs_def BitSlip40_def snd_rx_cycle u rot
        not_less)
qed

text \<open>
  C8. The mode does not enter the datapaths. For any two modes the transmit and
  the receive datapath are the same, so from the same states, with the same
  encoder, decoders and bitslip, master and slave turn the same inputs into the
  same line groups and the same \<open>rx_k\<close>, \<open>rx_d\<close>, \<open>rx_idle\<close> and \<open>rx_comma\<close>: in
  every mode the line groups are the joined outputs of the encoder run on the
  multiplexed lanes, or 0 when idle, and the receive outputs are those of the
  four decoders run on the lanes of the groups after bitslip. In every mode the
  same primitives carry the data: \<open>OSERDESE3\<close> from \<open>tx_gearbox\<close> and \<open>OBUFDS\<close> onto
  the tx pads, \<open>IBUFDS_DIFF_OUT\<close> from the rx pads, \<open>IDELAYE3\<close> and \<open>ISERDESE3\<close>
  to \<open>serdes_q\<close>. The mode changes the clocking only. The master adds, before the
  transmit primitives, an \<open>OSERDESE3\<close> fed by \<open>tx_clk_gearbox\<close>, whose input is
  the word of four lanes \<open>0b1111100000\<close>, and an \<open>OBUFDS\<close> that drives its output
  onto the clk pads; it reads no clk pad and has no \<open>refclk\<close>. The slave adds,
  before the receive primitives, an \<open>IBUFDS\<close> that reads the clk pads, a \<open>BUFR\<close>
  and a \<open>BUFG\<close> whose output drives \<open>refclk\<close>; it drives no clk pad and has no
  \<open>tx_clk_gearbox\<close>. Without the primitives of the clocking the list of
  primitives is the same in every mode, and no output of the clocking primitives
  is a net of the others.
\<close>

theorem mode_changes_only_clocking:
  "tx_datapath (KUSSerdes m :: ('e, 'b, 'd) kusserdes) =
     tx_datapath (KUSSerdes m' :: ('e, 'b, 'd) kusserdes) \<and>
   rx_datapath (KUSSerdes m :: ('e, 'b, 'd) kusserdes) =
     rx_datapath (KUSSerdes m' :: ('e, 'b, 'd) kusserdes) \<and>
   run (tx_datapath (KUSSerdes ''master'' :: ('e, 'b, 'd) kusserdes) encoder) es txs =
     run (tx_datapath (KUSSerdes ''slave'' :: ('e, 'b, 'd) kusserdes) encoder) es txs \<and>
   run (rx_datapath (KUSSerdes ''master'' :: ('e, 'b, 'd) kusserdes) bitslip decoder) s rxs =
     run (rx_datapath (KUSSerdes ''slave'' :: ('e, 'b, 'd) kusserdes) bitslip decoder) s rxs \<and>
   specials (KUSSerdes ''master'' :: ('e, 'b, 'd) kusserdes) =
     multiregs @ tx_clock_specials ''master'' @ tx_specials @ rx_specials \<and>
   specials (KUSSerdes ''slave'' :: ('e, 'b, 'd) kusserdes) =
     multiregs @ tx_specials @ rx_clock_specials ''slave'' @ rx_specials \<and>
   map fst (tx_clock_specials ''master'') = [''OSERDESE3'', ''OBUFDS''] \<and>
   map fst (rx_clock_specials ''slave'') = [''IBUFDS'', ''BUFR'', ''BUFG''] \<and>
   tx_clk_gearbox_i (KUSSerdes ''master'' :: ('e, 'b, 'd) kusserdes) = Some tx_clk_word \<and>
   tx_clk_gearbox_i (KUSSerdes ''slave'' :: ('e, 'b, 'd) kusserdes) = None \<and>
   decoder_inputs tx_clk_word = Lanes 0x3E0 0x3E0 0x3E0 0x3E0 \<and>
   refclk (KUSSerdes ''master'' :: ('e, 'b, 'd) kusserdes) = None \<and>
   refclk (KUSSerdes ''slave'' :: ('e, 'b, 'd) kusserdes) = Some ''clk_i_bufg'' \<and>
   run (tx_datapath (KUSSerdes m :: ('e, 'b, 'd) kusserdes) encoder) es txs =
     map2 (\<lambda>i out. tx_gearbox_i_next (tx_idle i) out) txs
       (run encoder es (map (\<lambda>i. encoder_inputs (tx_comma i) (tx_k i) (tx_d i)) txs)) \<and>
   run (rx_datapath (KUSSerdes m :: ('e, 'b, 'd) kusserdes) bitslip decoder) (b, ds) rxs =
     map2 rx_outputs (run bitslip b (map rx_bitslip_inputs rxs))
       (run (decode_lanes decoder) ds
          (map decoder_inputs (run bitslip b (map rx_bitslip_inputs rxs)))) \<and>
   drivers_of (specials (KUSSerdes m :: ('e, 'b, 'd) kusserdes)) ''pads.tx_p'' =
     [(''OBUFDS'', [''serdes_o''])] \<and>
   drivers_of (specials (KUSSerdes m :: ('e, 'b, 'd) kusserdes)) ''pads.tx_n'' =
     [(''OBUFDS'', [''serdes_o''])] \<and>
   drivers_of (specials (KUSSerdes m :: ('e, 'b, 'd) kusserdes)) ''serdes_o'' =
     [(''OSERDESE3'', [''ResetSignal(sys)'', ''ClockSignal(sys4x)'', ''ClockSignal(sys)'',
                       ''self.tx_gearbox.o''])] \<and>
   readers_of (specials (KUSSerdes m :: ('e, 'b, 'd) kusserdes)) ''pads.rx_p'' =
     [''IBUFDS_DIFF_OUT''] \<and>
   readers_of (specials (KUSSerdes m :: ('e, 'b, 'd) kusserdes)) ''pads.rx_n'' =
     [''IBUFDS_DIFF_OUT''] \<and>
   drivers_of (specials (KUSSerdes m :: ('e, 'b, 'd) kusserdes)) ''serdes_q'' =
     [(''ISERDESE3'', [''serdes_i_delayed'', ''ResetSignal(sys)'', ''0'', ''0'',
                       ''ClockSignal(sys4x)'', ''ClockSignal(sys4x)'', ''ClockSignal(sys)''])] \<and>
   drivers_of (specials (KUSSerdes m :: ('e, 'b, 'd) kusserdes)) ''serdes_i_delayed'' =
     [(''IDELAYE3'', [''ClockSignal(sys)'', ''rx_delay_rst'', ''0'', ''rx_delay_inc'',
                      ''rx_delay_en_vtc'', ''rx_delay_ce'', ''serdes_i_nodelay''])] \<and>
   drivers_of (specials (KUSSerdes m :: ('e, 'b, 'd) kusserdes)) ''serdes_i_nodelay'' =
     [(''IBUFDS_DIFF_OUT'', [''pads.rx_p'', ''pads.rx_n''])] \<and>
   drivers_of (specials (KUSSerdes ''master'' :: ('e, 'b, 'd) kusserdes)) ''pads.clk_p'' =
     [(''OBUFDS'', [''clk_o''])] \<and>
   drivers_of (specials (KUSSerdes ''master'' :: ('e, 'b, 'd) kusserdes)) ''pads.clk_n'' =
     [(''OBUFDS'', [''clk_o''])] \<and>
   drivers_of (specials (KUSSerdes ''master'' :: ('e, 'b, 'd) kusserdes)) ''clk_o'' =
     [(''OSERDESE3'', [''ResetSignal(sys)'', ''ClockSignal(sys4x)'', ''ClockSignal(sys)'',
                       ''self.tx_clk_gearbox.o''])] \<and>
   readers_of (specials (KUSSerdes ''master'' :: ('e, 'b, 'd) kusserdes)) ''pads.clk_p'' = [] \<and>
   readers_of (specials (KUSSerdes ''master'' :: ('e, 'b, 'd) kusserdes)) ''pads.clk_n'' = [] \<and>
   readers_of (specials (KUSSerdes ''slave'' :: ('e, 'b, 'd) kusserdes)) ''pads.clk_p'' =
     [''IBUFDS''] \<and>
   readers_of (specials (KUSSerdes ''slave'' :: ('e, 'b, 'd) kusserdes)) ''pads.clk_n'' =
     [''IBUFDS''] \<and>
   drivers_of (specials (KUSSerdes ''slave'' :: ('e, 'b, 'd) kusserdes)) ''clk_i'' =
     [(''IBUFDS'', [''pads.clk_p'', ''pads.clk_n''])] \<and>
   drivers_of (specials (KUSSerdes ''slave'' :: ('e, 'b, 'd) kusserdes)) ''clk_i_bufr'' =
     [(''BUFR'', [''clk_i''])] \<and>
   drivers_of (specials (KUSSerdes ''slave'' :: ('e, 'b, 'd) kusserdes)) ''clk_i_bufg'' =
     [(''BUFG'', [''clk_i_bufr''])] \<and>
   drivers_of (specials (KUSSerdes ''slave'' :: ('e, 'b, 'd) kusserdes)) ''pads.clk_p'' = [] \<and>
   drivers_of (specials (KUSSerdes ''slave'' :: ('e, 'b, 'd) kusserdes)) ''pads.clk_n'' = [] \<and>
   filter (\<lambda>sp. \<not> List.member (tx_clock_specials m @ rx_clock_specials m) sp)
     (specials (KUSSerdes m :: ('e, 'b, 'd) kusserdes)) = multiregs @ tx_specials @ rx_specials \<and>
   filter (List.member (concat (map nets_of (multiregs @ tx_specials @ rx_specials))))
     (concat (map outputs_of (tx_clock_specials m @ rx_clock_specials m))) = []"
proof -
  have dp: "tx_datapath (KUSSerdes m :: ('e, 'b, 'd) kusserdes) = tx_cycle"
    "tx_datapath (KUSSerdes m' :: ('e, 'b, 'd) kusserdes) = tx_cycle"
    "rx_datapath (KUSSerdes m :: ('e, 'b, 'd) kusserdes) = rx_cycle"
    "rx_datapath (KUSSerdes m' :: ('e, 'b, 'd) kusserdes) = rx_cycle"
    "tx_datapath (KUSSerdes ''master'' :: ('e, 'b, 'd) kusserdes) = tx_cycle"
    "tx_datapath (KUSSerdes ''slave'' :: ('e, 'b, 'd) kusserdes) = tx_cycle"
    "rx_datapath (KUSSerdes ''master'' :: ('e, 'b, 'd) kusserdes) = rx_cycle"
    "rx_datapath (KUSSerdes ''slave'' :: ('e, 'b, 'd) kusserdes) = rx_cycle"
    by (simp_all add: KUSSerdes_def)
  have clk: "map fst (tx_clock_specials ''master'') = [''OSERDESE3'', ''OBUFDS'']"
    "map fst (rx_clock_specials ''slave'') = [''IBUFDS'', ''BUFR'', ''BUFG'']"
    "tx_clk_gearbox_i (KUSSerdes ''master'' :: ('e, 'b, 'd) kusserdes) = Some tx_clk_word"
    "tx_clk_gearbox_i (KUSSerdes ''slave'' :: ('e, 'b, 'd) kusserdes) = None"
    "refclk (KUSSerdes ''master'' :: ('e, 'b, 'd) kusserdes) = None"
    "refclk (KUSSerdes ''slave'' :: ('e, 'b, 'd) kusserdes) = Some ''clk_i_bufg''"
    by (simp_all add: KUSSerdes_def tx_clock_specials_def rx_clock_specials_def use_bufr_def)
  have seq: "run (tx_datapath (KUSSerdes m :: ('e, 'b, 'd) kusserdes) encoder) es txs =
     map2 (\<lambda>i out. tx_gearbox_i_next (tx_idle i) out) txs
       (run encoder es (map (\<lambda>i. encoder_inputs (tx_comma i) (tx_k i) (tx_d i)) txs))"
    "run (rx_datapath (KUSSerdes m :: ('e, 'b, 'd) kusserdes) bitslip decoder) (b, ds) rxs =
     map2 rx_outputs (run bitslip b (map rx_bitslip_inputs rxs))
       (run (decode_lanes decoder) ds
          (map decoder_inputs (run bitslip b (map rx_bitslip_inputs rxs))))"
    unfolding dp by (rule run_tx_cycle run_rx_cycle)+
  have eqs: "tx_datapath (KUSSerdes m :: ('e, 'b, 'd) kusserdes) =
     tx_datapath (KUSSerdes m' :: ('e, 'b, 'd) kusserdes)"
    "rx_datapath (KUSSerdes m :: ('e, 'b, 'd) kusserdes) =
     rx_datapath (KUSSerdes m' :: ('e, 'b, 'd) kusserdes)"
    "run (tx_datapath (KUSSerdes ''master'' :: ('e, 'b, 'd) kusserdes) encoder) es txs =
     run (tx_datapath (KUSSerdes ''slave'' :: ('e, 'b, 'd) kusserdes) encoder) es txs"
    "run (rx_datapath (KUSSerdes ''master'' :: ('e, 'b, 'd) kusserdes) bitslip decoder) s rxs =
     run (rx_datapath (KUSSerdes ''slave'' :: ('e, 'b, 'd) kusserdes) bitslip decoder) s rxs"
    unfolding dp by (rule refl)+
  note ms = master_netlist [folded specials_master [where ?'e = 'e and ?'b = 'b and ?'d = 'd]]
  note ss = slave_netlist [folded specials_slave [where ?'e = 'e and ?'b = 'b and ?'d = 'd]]
  show ?thesis
    by (intro conjI)
       (fact eqs specials_master specials_slave clk tx_clk_word_lanes seq
          data_netlist_any_mode ms ss clock_specials_apart clock_outputs_apart)+
qed

text \<open>
  C10. With \<open>tx_idle\<close> the group loaded into the transmit gearbox is 0 whatever the
  encoder puts out. On receive \<open>rx_idle\<close> is asserted in a cycle exactly when the
  40-bit group after bitslip is 0. So the group an idle transmitter loads is one
  for which the receive side of the peer, handed that group, asserts \<open>rx_idle\<close>.
\<close>

theorem idle_semantics:
  "tx_gearbox_i_next True out = 0 \<and>
   snd (tx_cycle encoder es (i\<lparr>tx_idle := True\<rparr>)) = 0 \<and>
   rx_idle_of g = (g = 0) \<and>
   rx_idle (snd (rx_cycle bitslip decoder s j)) =
     (snd (bitslip (fst s) (rx_bitslip_inputs j)) = 0) \<and>
   rx_idle_of (snd (tx_cycle encoder es (i\<lparr>tx_idle := True\<rparr>))) = True"
  by (simp add: snd_tx_cycle snd_rx_cycle tx_gearbox_i_next_def rx_idle_of_def rx_outputs_def)

end
